theory Spec2Isabelle
  imports Main "HOL-Library.Char_ord" "HOL-Library.List_Lexorder"
begin

section \<open>Python values of a decoded JSON payload\<close>

text \<open>
  The models of \<^verbatim>\<open>wled/models.py\<close> are built from the value that the JSON decoder
  returns: \<^verbatim>\<open>None\<close>, booleans, integers, strings, lists and dictionaries with string
  keys. \<open>PTuple\<close> is added for the results of \<^verbatim>\<open>tuple(...)\<close>. A dictionary is an
  association list in insertion order, read with \<open>map_of\<close>; a Python dictionary has
  each key once. A string is a list of characters, one \<open>char\<close> for each Python
  character (code points below 256), ordered by code point as Python orders them.
  JSON numbers with a fraction (Python floats) are not represented.
  The payload is a tree, as the JSON decoder builds it: no list object occurs at two
  places of it.
\<close>

datatype pyval =
    PNone
  | PBool bool
  | PInt int
  | PStr string
  | PList "pyval list"
  | PTuple "pyval list"
  | PDict "(string \<times> pyval) list"

type_synonym pydict = "(string \<times> pyval) list"

text \<open>
  The exceptions that occur in the module; \<^verbatim>\<open>IndexError\<close> is the one it catches.
  \<open>NotModelled\<close> is not a Python exception: it marks the one place where this
  development does not follow Python (the order of two or more catalog names that
  are all lists, or all tuples, see \<open>sort_by_name\<close>).
\<close>

datatype error =
    WLEDError
  | KeyError pyval
  | IndexError
  | TypeError
  | AttributeError
  | NotModelled

text \<open>\<^verbatim>\<open>k in data\<close>, \<^verbatim>\<open>data[k]\<close> and \<^verbatim>\<open>data.get(k, default)\<close> on a dictionary.\<close>

definition dict_contains :: "string \<Rightarrow> pydict \<Rightarrow> bool" where
  "dict_contains k data = (case map_of data k of None \<Rightarrow> False | Some v \<Rightarrow> True)"

definition dict_getitem :: "pydict \<Rightarrow> string \<Rightarrow> error + pyval" where
  "dict_getitem data k = (case map_of data k of None \<Rightarrow> Inl (KeyError (PStr k)) | Some v \<Rightarrow> Inr v)"

definition dict_get :: "pydict \<Rightarrow> string \<Rightarrow> pyval \<Rightarrow> pyval" where
  "dict_get data k dflt = (case map_of data k of None \<Rightarrow> dflt | Some v \<Rightarrow> v)"

text \<open>
  The value under a key is replaced where it stands. The dictionaries of the payload are
  never assigned to by the module; \<open>dict_set\<close> records that a list object held under
  a key was changed in place.
\<close>

fun dict_set :: "string \<Rightarrow> pyval \<Rightarrow> pydict \<Rightarrow> pydict" where
  "dict_set k v [] = []"
| "dict_set k v ((k', v') # kvs) = (if k' = k then (k', v) # kvs else (k', v') # dict_set k v kvs)"

text \<open>
  \<^verbatim>\<open>value.get(k, default)\<close> on a value that was itself read from the payload: every object
  but a dictionary has no attribute \<^verbatim>\<open>get\<close>.
\<close>

fun as_dict :: "pyval \<Rightarrow> error + pydict" where
  "as_dict (PDict d) = Inr d"
| "as_dict v = Inl AttributeError"

text \<open>Truth value of an object, as \<^verbatim>\<open>if x:\<close> tests it.\<close>

fun truthy :: "pyval \<Rightarrow> bool" where
  "truthy PNone = False"
| "truthy (PBool b) = b"
| "truthy (PInt n) = (n \<noteq> 0)"
| "truthy (PStr s) = (s \<noteq> [])"
| "truthy (PList xs) = (xs \<noteq> [])"
| "truthy (PTuple xs) = (xs \<noteq> [])"
| "truthy (PDict kvs) = (kvs \<noteq> [])"

text \<open>
  Iteration, as \<^verbatim>\<open>enumerate(x)\<close> and \<^verbatim>\<open>tuple(x)\<close> do it: a list or tuple gives its
  items, a string its characters, a dictionary its keys; \<^verbatim>\<open>None\<close>, a boolean and an
  integer are not iterable.
\<close>

fun py_iter :: "pyval \<Rightarrow> error + pyval list" where
  "py_iter (PList xs) = Inr xs"
| "py_iter (PTuple xs) = Inr xs"
| "py_iter (PStr s) = Inr (map (\<lambda>c. PStr [c]) s)"
| "py_iter (PDict kvs) = Inr (map (\<lambda>kv. PStr (fst kv)) kvs)"
| "py_iter v = Inl TypeError"

definition py_tuple :: "pyval \<Rightarrow> error + pyval" where
  "py_tuple x = (case py_iter x of Inl e \<Rightarrow> Inl e | Inr xs \<Rightarrow> Inr (PTuple xs))"

text \<open>
  Integers and booleans are the numbers of the payload (\<^verbatim>\<open>bool\<close> is a subclass of
  \<^verbatim>\<open>int\<close>: \<^verbatim>\<open>True == 1\<close>). \<open>py_sub\<close> is \<^verbatim>\<open>a - b\<close>, \<open>py_eq_int\<close> is
  \<^verbatim>\<open>i == v\<close> for an integer \<open>i\<close>.
\<close>

fun int_like :: "pyval \<Rightarrow> int option" where
  "int_like (PInt n) = Some n"
| "int_like (PBool b) = Some (if b then 1 else 0)"
| "int_like v = None"

definition py_sub :: "pyval \<Rightarrow> pyval \<Rightarrow> error + pyval" where
  "py_sub a b =
     (case int_like a of
        None \<Rightarrow> Inl TypeError
      | Some x \<Rightarrow> (case int_like b of None \<Rightarrow> Inl TypeError | Some y \<Rightarrow> Inr (PInt (x - y))))"

definition py_eq_int :: "int \<Rightarrow> pyval \<Rightarrow> bool" where
  "py_eq_int i v = (case int_like v of None \<Rightarrow> False | Some n \<Rightarrow> i = n)"

section \<open>Value objects\<close>

subsection \<open>Nightlight and Sync\<close>

text \<open>
  A dataclass does not check the types of its fields: a field holds whatever value
  the payload gave, so the fields read from the payload are \<open>pyval\<close>s.
  Field names that occur in several classes, or that are constants of HOL, carry the
  class as a suffix.
\<close>

record Nightlight =
  duration :: pyval
  fade :: pyval
  on_nl :: pyval
  target_brightness :: pyval

definition Nightlight_from_dict :: "pydict \<Rightarrow> error + Nightlight" where
  "Nightlight_from_dict data =
     (case as_dict (dict_get data ''nl'' (PDict [])) of
        Inl e \<Rightarrow> Inl e
      | Inr nightlight \<Rightarrow> Inr \<lparr>
          duration = dict_get nightlight ''dur'' (PInt 1),
          fade = dict_get nightlight ''fade'' (PBool False),
          on_nl = dict_get nightlight ''on'' (PBool False),
          target_brightness = dict_get nightlight ''tbri'' (PInt 0) \<rparr>)"

record Sync =
  receive :: pyval
  send :: pyval

definition Sync_from_dict :: "pydict \<Rightarrow> error + Sync" where
  "Sync_from_dict data =
     (case as_dict (dict_get data ''udpn'' (PDict [])) of
        Inl e \<Rightarrow> Inl e
      | Inr sync \<Rightarrow> Inr \<lparr>
          receive = dict_get sync ''recv'' (PBool False),
          send = dict_get sync ''send'' (PBool False) \<rparr>)"

subsection \<open>Effect and Palette\<close>

record Effect =
  effect_id :: int
  name_fx :: pyval

record Palette =
  name_pal :: pyval
  palette_id :: int

subsection \<open>Segment\<close>

record Segment =
  brightness_seg :: pyval
  clones :: pyval
  color_primary :: pyval
  color_secondary :: pyval
  color_tertiary :: pyval
  effect :: Effect
  intensity :: pyval
  length_seg :: pyval
  on_seg :: pyval
  palette :: Palette
  reverse :: pyval
  segment_id :: int
  selected :: pyval
  speed :: pyval
  start :: pyval
  stop :: pyval

text \<open>
  \<^verbatim>\<open>colors.pop(0)\<close>: the object after the call, and the item removed or the exception.
  A list loses its first item; an empty list raises \<^verbatim>\<open>IndexError\<close>; a dictionary has
  no key \<^verbatim>\<open>0\<close> (its keys are strings); any other object has no attribute \<^verbatim>\<open>pop\<close>.
\<close>

fun list_pop0 :: "pyval \<Rightarrow> pyval \<times> (error + pyval)" where
  "list_pop0 (PList []) = (PList [], Inl IndexError)"
| "list_pop0 (PList (x # xs)) = (PList xs, Inr x)"
| "list_pop0 (PDict kvs) = (PDict kvs, Inl (KeyError (PInt 0)))"
| "list_pop0 v = (v, Inl AttributeError)"

text \<open>\<^verbatim>\<open>tuple(colors.pop(0))\<close>: the item is removed before \<^verbatim>\<open>tuple\<close> can fail on it.\<close>

definition pop_color :: "pyval \<Rightarrow> pyval \<times> (error + pyval)" where
  "pop_color colors =
     (case list_pop0 colors of
        (colors', Inl e) \<Rightarrow> (colors', Inl e)
      | (colors', Inr x) \<Rightarrow> (colors', py_tuple x))"

text \<open>
  The assignment \<^verbatim>\<open>primary_color, secondary_color, tertiary_color = (0, 0, 0)\<close> unpacks
  the tuple: each of the three variables is the integer \<^verbatim>\<open>0\<close>. The three statements of
  the \<^verbatim>\<open>try\<close> block follow; the result is the list object after them, the three
  variables, and the exception that ended the block, if any.
\<close>

definition pop_colors :: "pyval \<Rightarrow> pyval \<times> (pyval \<times> pyval \<times> pyval) \<times> error option" where
  "pop_colors colors =
     (case (PInt 0, PInt 0, PInt 0) of (primary_color, secondary_color, tertiary_color) \<Rightarrow>
        (case pop_color colors of
           (colors1, Inl e) \<Rightarrow> (colors1, (primary_color, secondary_color, tertiary_color), Some e)
         | (colors1, Inr primary_color) \<Rightarrow>
        (case pop_color colors1 of
           (colors2, Inl e) \<Rightarrow> (colors2, (primary_color, secondary_color, tertiary_color), Some e)
         | (colors2, Inr secondary_color) \<Rightarrow>
        (case pop_color colors2 of
           (colors3, Inl e) \<Rightarrow> (colors3, (primary_color, secondary_color, tertiary_color), Some e)
         | (colors3, Inr tertiary_color) \<Rightarrow>
             (colors3, (primary_color, secondary_color, tertiary_color), None)))))"

text \<open>\<^verbatim>\<open>except IndexError: pass\<close>: that exception ends the block and is dropped.\<close>

fun except_IndexError :: "error option \<Rightarrow> error option" where
  "except_IndexError (Some IndexError) = None"
| "except_IndexError raised = raised"

definition Unknown_Effect :: Effect where
  "Unknown_Effect = \<lparr> effect_id = 0, name_fx = PStr ''Unknown'' \<rparr>"

definition Unknown_Palette :: Palette where
  "Unknown_Palette = \<lparr> name_pal = PStr ''Unknown'', palette_id = 0 \<rparr>"

text \<open>
  \<^verbatim>\<open>Segment.from_dict\<close>. The result is the segment's dictionary after the call (the list
  under \<^verbatim>\<open>"col"\<close> has lost the items popped; when the key is absent the list popped from
  is the fresh default and the dictionary is as before) and the exception raised or the
  segment returned. \<^verbatim>\<open>stop - start\<close> is evaluated before \<^verbatim>\<open>"len"\<close> is looked up.
\<close>

definition Segment_from_dict ::
  "int \<Rightarrow> pydict \<Rightarrow> Effect list \<Rightarrow> Palette list \<Rightarrow> pyval \<Rightarrow> pyval \<Rightarrow> pydict \<times> (error + Segment)" where
  "Segment_from_dict segment_id' data effects' palettes' state_on state_brightness =
     (let start' = dict_get data ''start'' (PInt 0);
          stop' = dict_get data ''stop'' (PInt 0)
      in case py_sub stop' start' of
           Inl e \<Rightarrow> (data, Inl e)
         | Inr difference \<Rightarrow>
      (let length' = dict_get data ''len'' difference;
           colors = dict_get data ''col'' (PList [])
       in case pop_colors colors of
            (colors', (primary_color, secondary_color, tertiary_color), raised) \<Rightarrow>
       (let data' = dict_set ''col'' colors' data
        in case except_IndexError raised of
             Some e \<Rightarrow> (data', Inl e)
           | None \<Rightarrow>
        (let effect' =
               (case find (\<lambda>item. py_eq_int (effect_id item) (dict_get data' ''fx'' (PInt 0))) effects' of
                  Some item \<Rightarrow> item
                | None \<Rightarrow> Unknown_Effect);
             palette' =
               (case find (\<lambda>item. py_eq_int (palette_id item) (dict_get data' ''pal'' (PInt 0))) palettes' of
                  Some item \<Rightarrow> item
                | None \<Rightarrow> Unknown_Palette)
         in (data', Inr \<lparr>
               brightness_seg = dict_get data' ''bri'' state_brightness,
               clones = dict_get data' ''cln'' (PInt (- 1)),
               color_primary = primary_color,
               color_secondary = secondary_color,
               color_tertiary = tertiary_color,
               effect = effect',
               intensity = dict_get data' ''ix'' (PInt 0),
               length_seg = length',
               on_seg = dict_get data' ''on'' state_on,
               palette = palette',
               reverse = dict_get data' ''reverse'' (PBool False),
               segment_id = segment_id',
               selected = dict_get data' ''sel'' (PBool False),
               speed = dict_get data' ''sx'' (PInt 0),
               start = start',
               stop = stop' \<rparr>)))))"

subsection \<open>Leds and Wifi\<close>

record Leds =
  count_leds :: pyval
  fps :: pyval
  max_power :: pyval
  max_segments :: pyval
  pin :: pyval
  power_leds :: pyval
  rgbw :: pyval
  wv :: pyval

definition Leds_from_dict :: "pydict \<Rightarrow> error + Leds" where
  "Leds_from_dict data =
     (case as_dict (dict_get data ''leds'' (PDict [])) of
        Inl e \<Rightarrow> Inl e
      | Inr leds' \<Rightarrow> Inr \<lparr>
          count_leds = dict_get leds' ''count'' (PInt 0),
          fps = dict_get leds' ''fps'' PNone,
          max_power = dict_get leds' ''maxpwr'' (PInt 0),
          max_segments = dict_get leds' ''maxseg'' (PInt 0),
          pin = dict_get leds' ''pin'' (PInt 0),
          power_leds = dict_get leds' ''pwr'' (PInt 0),
          rgbw = dict_get leds' ''rgbw'' (PBool False),
          wv = dict_get leds' ''wv'' (PBool True) \<rparr>)"

record Wifi =
  bssid :: pyval
  channel :: pyval
  rssi :: pyval
  signal :: pyval

text \<open>\<^verbatim>\<open>Wifi.from_dict\<close> returns \<^verbatim>\<open>None\<close> (here \<open>Inr None\<close>) or a \<^verbatim>\<open>Wifi\<close> object.\<close>

definition Wifi_from_dict :: "pydict \<Rightarrow> error + Wifi option" where
  "Wifi_from_dict data =
     (if \<not> dict_contains ''wifi'' data then Inr None
      else case as_dict (dict_get data ''wifi'' (PDict [])) of
        Inl e \<Rightarrow> Inl e
      | Inr wifi' \<Rightarrow> Inr (Some \<lparr>
          bssid = dict_get wifi' ''bssid'' (PStr ''00:00:00:00:00:00''),
          channel = dict_get wifi' ''channel'' (PInt 0),
          rssi = dict_get wifi' ''rssi'' (PInt 0),
          signal = dict_get wifi' ''signal'' (PInt 0) \<rparr>))"

section \<open>Info\<close>

record Info =
  architecture :: pyval
  arduino_core_version :: pyval
  brand :: pyval
  build_type :: pyval
  effect_count :: pyval
  free_heap :: pyval
  leds :: Leds
  live_ip :: pyval
  live_mode :: pyval
  live :: pyval
  mac_address :: pyval
  name_info :: pyval
  pallet_count :: pyval
  product_info :: pyval
  udp_port :: pyval
  uptime :: pyval
  version_id :: pyval
  version :: pyval
  websocket :: pyval
  wifi :: "Wifi option"

text \<open>\<^verbatim>\<open>core.replace("_", ".")\<close>; only a string has the method.\<close>

fun str_replace_underscore :: "pyval \<Rightarrow> error + pyval" where
  "str_replace_underscore (PStr s) = Inr (PStr (map (\<lambda>c. if c = CHR ''_'' then CHR ''.'' else c) s))"
| "str_replace_underscore v = Inl AttributeError"

definition Info_from_dict :: "pydict \<Rightarrow> error + Info" where
  "Info_from_dict data =
     (let websocket' = dict_get data ''ws'' PNone;
          websocket' = (if py_eq_int (- 1) websocket' then PNone else websocket')
      in case str_replace_underscore (dict_get data ''core'' (PStr ''Unknown'')) of
           Inl e \<Rightarrow> Inl e
         | Inr core \<Rightarrow>
     (case Leds_from_dict data of
           Inl e \<Rightarrow> Inl e
         | Inr leds' \<Rightarrow>
     (case Wifi_from_dict data of
           Inl e \<Rightarrow> Inl e
         | Inr wifi' \<Rightarrow> Inr \<lparr>
             architecture = dict_get data ''arch'' (PStr ''Unknown''),
             arduino_core_version = core,
             brand = dict_get data ''brand'' (PStr ''WLED''),
             build_type = dict_get data ''btype'' (PStr ''Unknown''),
             effect_count = dict_get data ''fxcount'' (PInt 0),
             free_heap = dict_get data ''freeheap'' (PInt 0),
             leds = leds',
             live_ip = dict_get data ''lip'' (PStr ''Unknown''),
             live_mode = dict_get data ''lm'' (PStr ''Unknown''),
             live = dict_get data ''live'' (PBool False),
             mac_address = dict_get data ''mac'' (PStr []),
             name_info = dict_get data ''name'' (PStr ''WLED Light''),
             pallet_count = dict_get data ''palcount'' (PInt 0),
             product_info = dict_get data ''product'' (PStr ''DIY Light''),
             udp_port = dict_get data ''udpport'' (PInt 0),
             uptime = dict_get data ''uptime'' (PInt 0),
             version_id = dict_get data ''vid'' (PStr ''Unknown''),
             version = dict_get data ''ver'' (PStr ''Unknown''),
             websocket = websocket',
             wifi = wifi' \<rparr>)))"

section \<open>State\<close>

record State =
  brightness_st :: pyval
  nightlight :: Nightlight
  on_st :: pyval
  playlist :: pyval
  preset :: pyval
  segments :: "Segment list"
  sync :: Sync
  transition :: pyval

definition playlist_active :: "State \<Rightarrow> bool" where
  "playlist_active self = py_eq_int (- 1) (playlist self)"

definition preset_active :: "State \<Rightarrow> bool" where
  "preset_active self = py_eq_int (- 1) (preset self)"

text \<open>
  The list comprehension of \<^verbatim>\<open>State.from_dict\<close>: one \<^verbatim>\<open>Segment.from_dict\<close> for each item,
  numbered from \<open>segment_id'\<close>, stopping at the first exception. An item that is not a
  dictionary has no \<^verbatim>\<open>get\<close>. The items are returned as the calls left them.
\<close>

fun decode_segments ::
  "nat \<Rightarrow> pyval list \<Rightarrow> Effect list \<Rightarrow> Palette list \<Rightarrow> pyval \<Rightarrow> pyval
     \<Rightarrow> pyval list \<times> (error + Segment list)" where
  "decode_segments segment_id' [] effects' palettes' state_on state_brightness = ([], Inr [])"
| "decode_segments segment_id' (segment # rest) effects' palettes' state_on state_brightness =
     (case as_dict segment of
        Inl e \<Rightarrow> (segment # rest, Inl e)
      | Inr data \<Rightarrow>
     (case Segment_from_dict (int segment_id') data effects' palettes' state_on state_brightness of
        (data', Inl e) \<Rightarrow> (PDict data' # rest, Inl e)
      | (data', Inr s) \<Rightarrow>
     (case decode_segments (Suc segment_id') rest effects' palettes' state_on state_brightness of
        (rest', Inl e) \<Rightarrow> (PDict data' # rest', Inl e)
      | (rest', Inr ss) \<Rightarrow> (PDict data' # rest', Inr (s # ss)))))"

text \<open>
  The items iterated are the items of the list under \<^verbatim>\<open>"seg"\<close> itself; the characters of
  a string and the keys of a dictionary are not dictionaries, so nothing is changed in
  them.
\<close>

fun items_changed :: "pyval \<Rightarrow> pyval list \<Rightarrow> pyval" where
  "items_changed (PList xs) xs' = PList xs'"
| "items_changed v xs' = v"

definition State_from_dict ::
  "pydict \<Rightarrow> Effect list \<Rightarrow> Palette list \<Rightarrow> pydict \<times> (error + State)" where
  "State_from_dict data effects' palettes' =
     (let brightness = dict_get data ''bri'' (PInt 1);
          on = dict_get data ''on'' (PBool False);
          seg = dict_get data ''seg'' (PList [])
      in case py_iter seg of
           Inl e \<Rightarrow> (data, Inl e)
         | Inr items \<Rightarrow>
     (case decode_segments 0 items effects' palettes' on brightness of
           (items', result) \<Rightarrow>
     (let data' = dict_set ''seg'' (items_changed seg items') data
      in case result of
           Inl e \<Rightarrow> (data', Inl e)
         | Inr segments' \<Rightarrow>
     (case Nightlight_from_dict data' of
           Inl e \<Rightarrow> (data', Inl e)
         | Inr nightlight' \<Rightarrow>
     (case Sync_from_dict data' of
           Inl e \<Rightarrow> (data', Inl e)
         | Inr sync' \<Rightarrow> (data', Inr \<lparr>
             brightness_st = brightness,
             nightlight = nightlight',
             on_st = on,
             playlist = dict_get data' ''pl'' (PInt (- 1)),
             preset = dict_get data' ''ps'' (PInt (- 1)),
             segments = segments',
             sync = sync',
             transition = dict_get data' ''transition'' (PInt 0) \<rparr>))))))"

section \<open>Device\<close>

text \<open>
  \<^verbatim>\<open>info\<close> and \<^verbatim>\<open>state\<close> are only declared in the class: until \<^verbatim>\<open>update_from_dict\<close>
  assigns them the object has no such attribute (\<open>None\<close> here), and reading one raises
  \<^verbatim>\<open>AttributeError\<close>. \<^verbatim>\<open>effects\<close> and \<^verbatim>\<open>palettes\<close> have the class-level value \<^verbatim>\<open>[]\<close>.
\<close>

record Device =
  effects :: "Effect list"
  info :: "Info option"
  palettes :: "Palette list"
  state :: "State option"

definition Device_class :: Device where
  "Device_class = \<lparr> effects = [], info = None, palettes = [], state = None \<rparr>"

definition Device_info :: "Device \<Rightarrow> error + Info" where
  "Device_info self = (case info self of None \<Rightarrow> Inl AttributeError | Some i \<Rightarrow> Inr i)"

definition Device_state :: "Device \<Rightarrow> error + State" where
  "Device_state self = (case state self of None \<Rightarrow> Inl AttributeError | Some s \<Rightarrow> Inr s)"

subsection \<open>Sorting a catalog by name\<close>

text \<open>
  \<^verbatim>\<open>effects.sort(key=lambda x: x.name)\<close>. Python's sort is stable and compares the keys
  with \<^verbatim>\<open><\<close>; on keys that \<^verbatim>\<open><\<close> orders totally its result is that of the stable
  insertion sort \<open>sort_key\<close>. Fewer than two items are not compared at all. Strings are
  ordered among themselves, and so are numbers. Two or more keys of which one is
  \<^verbatim>\<open>None\<close> or a dictionary, or of which two are of different kinds, make some
  comparison raise \<^verbatim>\<open>TypeError\<close>. Keys that are all lists (or all tuples) are compared
  item by item, which may or may not raise according to the comparisons the sort
  happens to make: that case is not modelled.
\<close>

fun is_str :: "pyval \<Rightarrow> bool" where
  "is_str (PStr s) = True"
| "is_str v = False"

fun str_key :: "pyval \<Rightarrow> string" where
  "str_key (PStr s) = s"
| "str_key v = []"

fun is_number :: "pyval \<Rightarrow> bool" where
  "is_number (PInt n) = True"
| "is_number (PBool b) = True"
| "is_number v = False"

fun int_key :: "pyval \<Rightarrow> int" where
  "int_key (PInt n) = n"
| "int_key (PBool b) = (if b then 1 else 0)"
| "int_key v = 0"

fun is_list :: "pyval \<Rightarrow> bool" where
  "is_list (PList xs) = True"
| "is_list v = False"

fun is_tuple :: "pyval \<Rightarrow> bool" where
  "is_tuple (PTuple xs) = True"
| "is_tuple v = False"

definition sort_by_name :: "('a \<Rightarrow> pyval) \<Rightarrow> 'a list \<Rightarrow> error + 'a list" where
  "sort_by_name key xs =
     (if length xs < 2 then Inr xs
      else if list_all (\<lambda>x. is_str (key x)) xs then Inr (sort_key (\<lambda>x. str_key (key x)) xs)
      else if list_all (\<lambda>x. is_number (key x)) xs then Inr (sort_key (\<lambda>x. int_key (key x)) xs)
      else if list_all (\<lambda>x. is_list (key x)) xs \<or> list_all (\<lambda>x. is_tuple (key x)) xs
        then Inl NotModelled
      else Inl TypeError)"

subsection \<open>\<^verbatim>\<open>update_from_dict\<close>\<close>

text \<open>The four \<^verbatim>\<open>if\<close> statements of \<^verbatim>\<open>update_from_dict\<close>, in order.\<close>

definition update_effects :: "Device \<Rightarrow> pydict \<Rightarrow> error + Device" where
  "update_effects self data =
     (let effects' = dict_get data ''effects'' PNone
      in if truthy effects' then
           (case py_iter effects' of
              Inl e \<Rightarrow> Inl e
            | Inr items \<Rightarrow>
           (case sort_by_name name_fx
                   (map (\<lambda>(effect_id', effect'). \<lparr> effect_id = int effect_id', name_fx = effect' \<rparr>)
                      (enumerate 0 items)) of
              Inl e \<Rightarrow> Inl e
            | Inr effects'' \<Rightarrow> Inr (self\<lparr> effects := effects'' \<rparr>)))
         else Inr self)"

definition update_palettes :: "Device \<Rightarrow> pydict \<Rightarrow> error + Device" where
  "update_palettes self data =
     (let palettes' = dict_get data ''palettes'' PNone
      in if truthy palettes' then
           (case py_iter palettes' of
              Inl e \<Rightarrow> Inl e
            | Inr items \<Rightarrow>
           (case sort_by_name name_pal
                   (map (\<lambda>(palette_id', palette'). \<lparr> name_pal = palette', palette_id = int palette_id' \<rparr>)
                      (enumerate 0 items)) of
              Inl e \<Rightarrow> Inl e
            | Inr palettes'' \<Rightarrow> Inr (self\<lparr> palettes := palettes'' \<rparr>)))
         else Inr self)"

definition update_info :: "Device \<Rightarrow> pydict \<Rightarrow> error + Device" where
  "update_info self data =
     (let info' = dict_get data ''info'' PNone
      in if truthy info' then
           (case as_dict info' of
              Inl e \<Rightarrow> Inl e
            | Inr d \<Rightarrow>
           (case Info_from_dict d of
              Inl e \<Rightarrow> Inl e
            | Inr i \<Rightarrow> Inr (self\<lparr> info := Some i \<rparr>)))
         else Inr self)"

text \<open>
  The last statement decodes the state against \<^verbatim>\<open>self.effects\<close> and \<^verbatim>\<open>self.palettes\<close>
  as the statements before left them. It is the only one that changes the payload.
\<close>

definition update_state :: "Device \<Rightarrow> pydict \<Rightarrow> Device \<times> pydict \<times> error option" where
  "update_state self data =
     (let state' = dict_get data ''state'' PNone
      in if truthy state' then
           (case as_dict state' of
              Inl e \<Rightarrow> (self, data, Some e)
            | Inr d \<Rightarrow>
           (case State_from_dict d (effects self) (palettes self) of
              (d', Inl e) \<Rightarrow> (self, dict_set ''state'' (PDict d') data, Some e)
            | (d', Inr s) \<Rightarrow> (self\<lparr> state := Some s \<rparr>, dict_set ''state'' (PDict d') data, None)))
         else (self, data, None))"

text \<open>
  \<^verbatim>\<open>update_from_dict\<close>: the object and the payload after the call, and the exception
  raised, if any. An exception leaves the object as the statements before it made it.
\<close>

definition Device_update_from_dict :: "Device \<Rightarrow> pydict \<Rightarrow> Device \<times> pydict \<times> error option" where
  "Device_update_from_dict self data =
     (case update_effects self data of
        Inl e \<Rightarrow> (self, data, Some e)
      | Inr self1 \<Rightarrow>
     (case update_palettes self1 data of
        Inl e \<Rightarrow> (self1, data, Some e)
      | Inr self2 \<Rightarrow>
     (case update_info self2 data of
        Inl e \<Rightarrow> (self2, data, Some e)
      | Inr self3 \<Rightarrow> update_state self3 data)))"

subsection \<open>\<^verbatim>\<open>__init__\<close>\<close>

text \<open>
  The generator of the guard,
  \<^verbatim>\<open>any(k not in data and data[k] is not None for k in [...])\<close>:
  \<^verbatim>\<open>and\<close> evaluates \<^verbatim>\<open>data[k]\<close> only when \<^verbatim>\<open>k not in data\<close> holds, and \<^verbatim>\<open>any\<close> stops
  at the first true item.
\<close>

fun any_missing :: "pydict \<Rightarrow> string list \<Rightarrow> error + bool" where
  "any_missing data [] = Inr False"
| "any_missing data (k # ks) =
     (if \<not> dict_contains k data then
        (case dict_getitem data k of
           Inl e \<Rightarrow> Inl e
         | Inr v \<Rightarrow> if v \<noteq> PNone then Inr True else any_missing data ks)
      else any_missing data ks)"

text \<open>
  \<^verbatim>\<open>Device(data)\<close>: the payload after the call, and the exception raised or the object
  constructed.
\<close>

definition Device_init :: "pydict \<Rightarrow> pydict \<times> (error + Device)" where
  "Device_init data =
     (case any_missing data [''effects'', ''palettes'', ''info'', ''state''] of
        Inl e \<Rightarrow> (data, Inl e)
      | Inr True \<Rightarrow> (data, Inl WLEDError)
      | Inr False \<Rightarrow>
          (case Device_update_from_dict Device_class data of
             (self, data', None) \<Rightarrow> (data', Inr self)
           | (self, data', Some e) \<Rightarrow> (data', Inl e)))"

section \<open>Decoding a segment\<close>

subsection \<open>Dictionaries\<close>

lemma map_of_dict_set:
  "map_of (dict_set k v d) k' = (if k' = k \<and> map_of d k \<noteq> None then Some v else map_of d k')"
  by (induction d) auto

lemma dict_get_dict_set_other: "k' \<noteq> k \<Longrightarrow> dict_get (dict_set k v d) k' dflt = dict_get d k' dflt"
  by (simp add: dict_get_def map_of_dict_set)

lemma dict_set_same: "map_of d k = Some v \<Longrightarrow> dict_set k v d = d"
  by (induction d) (auto split: if_splits)

subsection \<open>The colors popped\<close>

lemma pop_color_Nil: "pop_color (PList []) = (PList [], Inl IndexError)"
  by (simp add: pop_color_def)

lemma pop_color_Cons: "pop_color (PList (c # cs)) = (PList cs, py_tuple c)"
  by (simp add: pop_color_def)

lemma py_tuple_Inl: "py_tuple x = Inl e \<Longrightarrow> e = TypeError"
  by (cases x) (auto simp: py_tuple_def)

lemma pop_colors_list:
  assumes "pop_colors (PList cs) = (colors', (p, s, t), raised)"
    and "except_IndexError raised = None"
  shows "colors' = PList (drop 3 cs) \<and>
    (if 0 < length cs then py_tuple (cs ! 0) = Inr p else p = PInt 0) \<and>
    (if 1 < length cs then py_tuple (cs ! 1) = Inr s else s = PInt 0) \<and>
    (if 2 < length cs then py_tuple (cs ! 2) = Inr t else t = PInt 0)"
proof -
  consider "cs = []" | a where "cs = [a]" | a b where "cs = [a, b]"
    | a b c rest where "cs = a # b # c # rest"
    by (cases cs rule: list.exhaust; simp) (metis list.exhaust)
  then show ?thesis
    using assms
    by cases (auto simp: pop_colors_def pop_color_Nil pop_color_Cons split: sum.splits
        dest: py_tuple_Inl)
qed

text \<open>What a call of \<^verbatim>\<open>Segment.from_dict\<close> that returns has computed.\<close>

lemma Segment_from_dict_Inr:
  assumes "Segment_from_dict i data es ps on bri = (data', Inr s)"
  shows "\<exists>difference colors' p sc t raised.
    py_sub (dict_get data ''stop'' (PInt 0)) (dict_get data ''start'' (PInt 0)) = Inr difference \<and>
    pop_colors (dict_get data ''col'' (PList [])) = (colors', (p, sc, t), raised) \<and>
    except_IndexError raised = None \<and>
    data' = dict_set ''col'' colors' data \<and>
    s = \<lparr> brightness_seg = dict_get data ''bri'' bri,
          clones = dict_get data ''cln'' (PInt (- 1)),
          color_primary = p, color_secondary = sc, color_tertiary = t,
          effect = (case find (\<lambda>item. py_eq_int (effect_id item) (dict_get data ''fx'' (PInt 0))) es of
                      Some item \<Rightarrow> item | None \<Rightarrow> Unknown_Effect),
          intensity = dict_get data ''ix'' (PInt 0),
          length_seg = dict_get data ''len'' difference,
          on_seg = dict_get data ''on'' on,
          palette = (case find (\<lambda>item. py_eq_int (palette_id item) (dict_get data ''pal'' (PInt 0))) ps of
                      Some item \<Rightarrow> item | None \<Rightarrow> Unknown_Palette),
          reverse = dict_get data ''reverse'' (PBool False),
          segment_id = i,
          selected = dict_get data ''sel'' (PBool False),
          speed = dict_get data ''sx'' (PInt 0),
          start = dict_get data ''start'' (PInt 0),
          stop = dict_get data ''stop'' (PInt 0) \<rparr>"
  using assms
  by (auto simp: Segment_from_dict_def Let_def dict_get_dict_set_other
      split: sum.splits prod.splits option.splits)

text \<open>
  A color variable that no \<^verbatim>\<open>pop\<close> has assigned keeps the integer \<^verbatim>\<open>0\<close> of the
  unpacked tuple.
\<close>

lemma Segment_from_dict_unfilled_colors:
  assumes "dict_get data ''col'' (PList []) = PList cs"
    and "Segment_from_dict i data es ps on bri = (data', Inr s)"
  shows "(length cs < 1 \<longrightarrow> color_primary s = PInt 0) \<and>
         (length cs < 2 \<longrightarrow> color_secondary s = PInt 0) \<and>
         (length cs < 3 \<longrightarrow> color_tertiary s = PInt 0)"
proof -
  from Segment_from_dict_Inr [OF assms(2)] obtain colors' p sc t raised where
    pop: "pop_colors (dict_get data ''col'' (PList [])) = (colors', (p, sc, t), raised)"
    and ok: "except_IndexError raised = None"
    and s: "color_primary s = p" "color_secondary s = sc" "color_tertiary s = t"
    by auto
  from pop_colors_list [OF pop [unfolded assms(1)] ok] show ?thesis
    by (auto simp: s split: if_splits)
qed

text \<open>
  The items popped become the colors, in the order primary, secondary, tertiary, each
  as the tuple of its items.
\<close>

lemma Segment_from_dict_filled_colors:
  assumes "dict_get data ''col'' (PList []) = PList cs"
    and "Segment_from_dict i data es ps on bri = (data', Inr s)"
  shows "(0 < length cs \<longrightarrow> py_tuple (cs ! 0) = Inr (color_primary s)) \<and>
         (1 < length cs \<longrightarrow> py_tuple (cs ! 1) = Inr (color_secondary s)) \<and>
         (2 < length cs \<longrightarrow> py_tuple (cs ! 2) = Inr (color_tertiary s))"
proof -
  from Segment_from_dict_Inr [OF assms(2)] obtain colors' p sc t raised where
    pop: "pop_colors (dict_get data ''col'' (PList [])) = (colors', (p, sc, t), raised)"
    and ok: "except_IndexError raised = None"
    and s: "color_primary s = p" "color_secondary s = sc" "color_tertiary s = t"
    by auto
  from pop_colors_list [OF pop [unfolded assms(1)] ok] show ?thesis
    by (auto simp: s split: if_splits)
qed

lemma py_tuple_PList: "py_tuple (PList xs) = Inr (PTuple xs)"
  by (simp add: py_tuple_def)

text \<open>
  C2. For a \<^verbatim>\<open>"col"\<close> list of fewer than three items the slots left unfilled should be
  the tuple \<^verbatim>\<open>(0, 0, 0)\<close>, as the fields' type \<^verbatim>\<open>tuple[int, int, int]\<close> says. The
  segment \<^verbatim>\<open>{"col": [[255, 0, 0]]}\<close> is decoded with the first item as primary color,
  and the integer \<^verbatim>\<open>0\<close> as secondary and tertiary color.
\<close>

theorem Segment_from_dict_default_colors:
  "map_sum id (\<lambda>s. (color_primary s, color_secondary s, color_tertiary s))
     (snd (Segment_from_dict 0 [(''col'', PList [PList [PInt 255, PInt 0, PInt 0]])] [] []
        (PBool True) (PInt 128)))
   = Inr (PTuple [PInt 255, PInt 0, PInt 0], PInt 0, PInt 0)"
proof -
  let ?data = "[(''col'', PList [PList [PInt 255, PInt 0, PInt 0]])]"
  let ?s = "\<lparr> brightness_seg = PInt 128, clones = PInt (- 1),
      color_primary = PTuple [PInt 255, PInt 0, PInt 0],
      color_secondary = PInt 0, color_tertiary = PInt 0,
      effect = Unknown_Effect, intensity = PInt 0, length_seg = PInt 0, on_seg = PBool True,
      palette = Unknown_Palette, reverse = PBool False, segment_id = 0,
      selected = PBool False, speed = PInt 0, start = PInt 0, stop = PInt 0 \<rparr>"
  have col: "dict_get ?data ''col'' (PList []) = PList [PList [PInt 255, PInt 0, PInt 0]]"
    by (simp add: dict_get_def)
  have dec: "Segment_from_dict 0 ?data [] [] (PBool True) (PInt 128) = ([(''col'', PList [])], Inr ?s)"
    by (simp add: Segment_from_dict_def dict_get_def py_sub_def pop_colors_def pop_color_def
        py_tuple_def Let_def)
  from Segment_from_dict_unfilled_colors [OF col dec]
  have "color_secondary ?s = PInt 0 \<and> color_tertiary ?s = PInt 0"
    by simp
  then show ?thesis
    by (simp add: dec)
qed

subsection \<open>Effect and palette of a segment\<close>

lemma find_Some_D: "find P xs = Some x \<Longrightarrow> x \<in> set xs \<and> P x"
  by (induction xs) (auto split: if_splits)

text \<open>
  C5. A decoded segment has an effect and a palette. When no entry of the effect table
  has the identifier under \<^verbatim>\<open>"fx"\<close> (0 when the key is absent) the effect is
  \<^verbatim>\<open>Effect(effect_id=0, name="Unknown")\<close>, otherwise it is an entry of the table with
  that identifier; likewise for the palette and \<^verbatim>\<open>"pal"\<close>.
\<close>

theorem Segment_from_dict_unknown:
  assumes "Segment_from_dict i data es ps on bri = (data', Inr s)"
  shows "((\<forall>item\<in>set es. \<not> py_eq_int (effect_id item) (dict_get data ''fx'' (PInt 0))) \<longrightarrow>
            effect s = \<lparr> effect_id = 0, name_fx = PStr ''Unknown'' \<rparr>) \<and>
         ((\<exists>item\<in>set es. py_eq_int (effect_id item) (dict_get data ''fx'' (PInt 0))) \<longrightarrow>
            effect s \<in> set es \<and> py_eq_int (effect_id (effect s)) (dict_get data ''fx'' (PInt 0))) \<and>
         ((\<forall>item\<in>set ps. \<not> py_eq_int (palette_id item) (dict_get data ''pal'' (PInt 0))) \<longrightarrow>
            palette s = \<lparr> name_pal = PStr ''Unknown'', palette_id = 0 \<rparr>) \<and>
         ((\<exists>item\<in>set ps. py_eq_int (palette_id item) (dict_get data ''pal'' (PInt 0))) \<longrightarrow>
            palette s \<in> set ps \<and> py_eq_int (palette_id (palette s)) (dict_get data ''pal'' (PInt 0)))"
proof -
  let ?fx = "\<lambda>item. py_eq_int (effect_id item) (dict_get data ''fx'' (PInt 0))"
  let ?pal = "\<lambda>item. py_eq_int (palette_id item) (dict_get data ''pal'' (PInt 0))"
  from Segment_from_dict_Inr [OF assms] have
    e: "effect s = (case find ?fx es of Some item \<Rightarrow> item | None \<Rightarrow> Unknown_Effect)"
    and p: "palette s = (case find ?pal ps of Some item \<Rightarrow> item | None \<Rightarrow> Unknown_Palette)"
    by auto
  have "(\<forall>item\<in>set es. \<not> ?fx item) \<longrightarrow> effect s = \<lparr> effect_id = 0, name_fx = PStr ''Unknown'' \<rparr>"
    by (auto simp: e Unknown_Effect_def dest: find_Some_D split: option.splits)
  moreover have "(\<exists>item\<in>set es. ?fx item) \<longrightarrow> effect s \<in> set es \<and> ?fx (effect s)"
    by (auto simp: e find_None_iff dest: find_Some_D split: option.splits)
  moreover have "(\<forall>item\<in>set ps. \<not> ?pal item) \<longrightarrow> palette s = \<lparr> name_pal = PStr ''Unknown'', palette_id = 0 \<rparr>"
    by (auto simp: p Unknown_Palette_def dest: find_Some_D split: option.splits)
  moreover have "(\<exists>item\<in>set ps. ?pal item) \<longrightarrow> palette s \<in> set ps \<and> ?pal (palette s)"
    by (auto simp: p find_None_iff dest: find_Some_D split: option.splits)
  ultimately show ?thesis by blast
qed

text \<open>
  The theorem at the segments \<^verbatim>\<open>{"fx": 7}\<close> and \<^verbatim>\<open>{"pal": 9}\<close>, with the tables
  \<^verbatim>\<open>[Solid]\<close> and \<^verbatim>\<open>[Default]\<close>.
\<close>

theorem Segment_from_dict_unknown_witness:
  "map_sum id (\<lambda>s. (effect s, palette s))
     (snd (Segment_from_dict 0 [(''fx'', PInt 7)]
        [\<lparr> effect_id = 0, name_fx = PStr ''Solid'' \<rparr>]
        [\<lparr> name_pal = PStr ''Default'', palette_id = 0 \<rparr>] (PBool True) (PInt 128)))
   = Inr (\<lparr> effect_id = 0, name_fx = PStr ''Unknown'' \<rparr>,
          \<lparr> name_pal = PStr ''Default'', palette_id = 0 \<rparr>) \<and>
   map_sum id (\<lambda>s. (effect s, palette s))
     (snd (Segment_from_dict 0 [(''pal'', PInt 9)]
        [\<lparr> effect_id = 0, name_fx = PStr ''Solid'' \<rparr>]
        [\<lparr> name_pal = PStr ''Default'', palette_id = 0 \<rparr>] (PBool True) (PInt 128)))
   = Inr (\<lparr> effect_id = 0, name_fx = PStr ''Solid'' \<rparr>,
          \<lparr> name_pal = PStr ''Unknown'', palette_id = 0 \<rparr>)"
proof -
  let ?es = "[\<lparr> effect_id = 0, name_fx = PStr ''Solid'' \<rparr>]"
  let ?ps = "[\<lparr> name_pal = PStr ''Default'', palette_id = 0 \<rparr>]"
  let ?r1 = "Segment_from_dict 0 [(''fx'', PInt 7)] ?es ?ps (PBool True) (PInt 128)"
  let ?r2 = "Segment_from_dict 0 [(''pal'', PInt 9)] ?es ?ps (PBool True) (PInt 128)"
  obtain s1 where dec1: "?r1 = ([(''fx'', PInt 7)], Inr s1)"
    by (simp add: Segment_from_dict_def dict_get_def py_sub_def pop_colors_def pop_color_def Let_def)
  obtain s2 where dec2: "?r2 = ([(''pal'', PInt 9)], Inr s2)"
    by (simp add: Segment_from_dict_def dict_get_def py_sub_def pop_colors_def pop_color_def Let_def)
  from Segment_from_dict_unknown [OF dec1]
  have "effect s1 = \<lparr> effect_id = 0, name_fx = PStr ''Unknown'' \<rparr>"
    and "palette s1 = \<lparr> name_pal = PStr ''Default'', palette_id = 0 \<rparr>"
    by (simp_all add: dict_get_def py_eq_int_def)
  moreover from Segment_from_dict_unknown [OF dec2]
  have "effect s2 = \<lparr> effect_id = 0, name_fx = PStr ''Solid'' \<rparr>"
    and "palette s2 = \<lparr> name_pal = PStr ''Unknown'', palette_id = 0 \<rparr>"
    by (simp_all add: dict_get_def py_eq_int_def)
  ultimately show ?thesis
    by (simp add: dec1 dec2)
qed

subsection \<open>The payload after the call\<close>

lemma pop_colors_Nil: "pop_colors (PList []) = (PList [], (PInt 0, PInt 0, PInt 0), Some IndexError)"
  by (simp add: pop_colors_def pop_color_def)

lemma py_tuple_Inr: "py_tuple c = Inr p \<Longrightarrow> \<exists>xs. p = PTuple xs"
  by (auto simp: py_tuple_def split: sum.splits)

text \<open>
  C9. \<^verbatim>\<open>Segment.from_dict\<close> changes its argument: after a call that returns, the list under
  \<^verbatim>\<open>"col"\<close> has lost its first three items (all of them when there are fewer), and the
  other keys are as before. When the list had one, two or three items, the dictionary is
  no longer the one passed in, and decoding it again gives the primary color \<^verbatim>\<open>0\<close>,
  not the one of the first call.
\<close>

theorem Segment_from_dict_mutates_payload:
  assumes "map_of data ''col'' = Some (PList cs)"
    and "Segment_from_dict i data es ps on bri = (data', Inr s)"
  shows "map_of data' ''col'' = Some (PList (drop 3 cs)) \<and>
         (\<forall>k. k \<noteq> ''col'' \<longrightarrow> map_of data' k = map_of data k) \<and>
         (cs \<noteq> [] \<longrightarrow> data' \<noteq> data) \<and>
         (cs \<noteq> [] \<and> length cs \<le> 3 \<longrightarrow>
            (\<exists>s'. Segment_from_dict i data' es ps on bri = (data', Inr s') \<and>
                  color_primary s' = PInt 0 \<and> color_primary s' \<noteq> color_primary s))"
proof -
  have col: "dict_get data ''col'' (PList []) = PList cs"
    using assms(1) by (simp add: dict_get_def)
  from Segment_from_dict_Inr [OF assms(2)] obtain difference colors' p sc t raised where
    sub: "py_sub (dict_get data ''stop'' (PInt 0)) (dict_get data ''start'' (PInt 0)) = Inr difference"
    and pop: "pop_colors (PList cs) = (colors', (p, sc, t), raised)"
    and ok: "except_IndexError raised = None"
    and data': "data' = dict_set ''col'' colors' data"
    and prim: "color_primary s = p"
    unfolding col by auto
  note pl = pop_colors_list [OF pop ok]
  from pl have colors': "colors' = PList (drop 3 cs)" by simp
  have 1: "map_of data' ''col'' = Some (PList (drop 3 cs))"
    using assms(1) by (simp add: data' colors' map_of_dict_set)
  have 0: "\<forall>k. k \<noteq> ''col'' \<longrightarrow> map_of data' k = map_of data k"
    by (simp add: data' map_of_dict_set)
  have 2: "data' \<noteq> data" if "cs \<noteq> []"
  proof
    assume "data' = data"
    with 1 assms(1) have "drop 3 cs = cs" by simp
    then have "length (drop 3 cs) = length cs" by simp
    with that show False by (cases cs) auto
  qed
  have 3: "\<exists>s'. Segment_from_dict i data' es ps on bri = (data', Inr s') \<and>
                  color_primary s' = PInt 0 \<and> color_primary s' \<noteq> color_primary s"
    if "cs \<noteq> []" "length cs \<le> 3"
  proof -
    from that 1 have col': "map_of data' ''col'' = Some (PList [])" by simp
    then have same: "dict_set ''col'' (PList []) data' = data'"
      by (rule dict_set_same)
    have other: "\<And>k dflt. k \<noteq> ''col'' \<Longrightarrow> dict_get data' k dflt = dict_get data k dflt"
      by (simp add: data' dict_get_dict_set_other)
    from that pl have "py_tuple (cs ! 0) = Inr p" by simp
    then obtain xs where p: "p = PTuple xs" by (auto dest: py_tuple_Inr)
    have "dict_get data' ''col'' (PList []) = PList []"
      using col' by (simp add: dict_get_def)
    then show ?thesis
      by (simp add: Segment_from_dict_def Let_def other sub pop_colors_Nil same prim p)
  qed
  from 0 1 2 3 show ?thesis by blast
qed

text \<open>The theorem at the segment \<^verbatim>\<open>{"col": [[255, 0, 0]]}\<close>, decoded twice.\<close>

theorem Segment_from_dict_mutates_payload_witness:
  "fst (Segment_from_dict 0 [(''col'', PList [PList [PInt 255, PInt 0, PInt 0]])] [] []
          (PBool True) (PInt 128)) = [(''col'', PList [])] \<and>
   map_sum id color_primary
     (snd (Segment_from_dict 0 [(''col'', PList [PList [PInt 255, PInt 0, PInt 0]])] [] []
          (PBool True) (PInt 128))) = Inr (PTuple [PInt 255, PInt 0, PInt 0]) \<and>
   map_sum id color_primary
     (snd (Segment_from_dict 0 [(''col'', PList [])] [] []
          (PBool True) (PInt 128))) = Inr (PInt 0)"
proof -
  let ?data = "[(''col'', PList [PList [PInt 255, PInt 0, PInt 0]])]"
  let ?s = "\<lparr> brightness_seg = PInt 128, clones = PInt (- 1),
      color_primary = PTuple [PInt 255, PInt 0, PInt 0],
      color_secondary = PInt 0, color_tertiary = PInt 0,
      effect = Unknown_Effect, intensity = PInt 0, length_seg = PInt 0, on_seg = PBool True,
      palette = Unknown_Palette, reverse = PBool False, segment_id = 0,
      selected = PBool False, speed = PInt 0, start = PInt 0, stop = PInt 0 \<rparr>"
  have col: "map_of ?data ''col'' = Some (PList [PList [PInt 255, PInt 0, PInt 0]])"
    by simp
  have dec: "Segment_from_dict 0 ?data [] [] (PBool True) (PInt 128) = ([(''col'', PList [])], Inr ?s)"
    by (simp add: Segment_from_dict_def dict_get_def py_sub_def pop_colors_def pop_color_def
        py_tuple_def Let_def)
  from Segment_from_dict_mutates_payload [OF col dec]
  obtain s' where "Segment_from_dict 0 [(''col'', PList [])] [] [] (PBool True) (PInt 128)
      = ([(''col'', PList [])], Inr s')" and "color_primary s' = PInt 0"
    by auto
  then show ?thesis
    by (simp add: dec)
qed

section \<open>Decoding the state\<close>



text \<open>\<^verbatim>\<open>stop - start\<close> on integers.\<close>

lemma py_sub_PInt: "py_sub (PInt b) (PInt a) = Inr (PInt (b - a))"
  by (simp add: py_sub_def)



section \<open>The derived accessors of State\<close>

lemma py_eq_int_minus_one: "py_eq_int (- 1) v \<longleftrightarrow> v = PInt (- 1)"
  by (cases v) (auto simp: py_eq_int_def)

text \<open>
  C6. \<^verbatim>\<open>playlist_active\<close> is true exactly when \<^verbatim>\<open>playlist\<close> is \<^verbatim>\<open>-1\<close>, and
  \<^verbatim>\<open>preset_active\<close> is true exactly when \<^verbatim>\<open>preset\<close> is \<^verbatim>\<open>-1\<close>.
\<close>

theorem playlist_preset_active:
  "(playlist_active self \<longleftrightarrow> playlist self = PInt (- 1)) \<and>
   (preset_active self \<longleftrightarrow> preset self = PInt (- 1))"
  by (simp add: playlist_active_def preset_active_def py_eq_int_minus_one)

section \<open>Wifi\<close>

text \<open>
  C7. \<^verbatim>\<open>Wifi.from_dict\<close> returns \<^verbatim>\<open>None\<close> exactly when the payload has no key
  \<^verbatim>\<open>"wifi"\<close>. When the key holds a mapping, the result is a Wifi object whose fields are
  the mapping's entries, with the defaults \<^verbatim>\<open>"00:00:00:00:00:00"\<close>, 0, 0 and 0 for the
  entries that are missing; the empty mapping gives the object of all defaults.
\<close>

theorem Wifi_from_dict_present:
  "(Wifi_from_dict data = Inr None \<longleftrightarrow> \<not> dict_contains ''wifi'' data) \<and>
   (\<forall>w. map_of data ''wifi'' = Some (PDict w) \<longrightarrow>
      Wifi_from_dict data = Inr (Some \<lparr>
        bssid = dict_get w ''bssid'' (PStr ''00:00:00:00:00:00''),
        channel = dict_get w ''channel'' (PInt 0),
        rssi = dict_get w ''rssi'' (PInt 0),
        signal = dict_get w ''signal'' (PInt 0) \<rparr>)) \<and>
   (map_of data ''wifi'' = Some (PDict []) \<longrightarrow>
      Wifi_from_dict data = Inr (Some \<lparr>
        bssid = PStr ''00:00:00:00:00:00'', channel = PInt 0, rssi = PInt 0, signal = PInt 0 \<rparr>))"
  by (auto simp: Wifi_from_dict_def dict_contains_def dict_get_def split: option.splits sum.splits)

text \<open>
  The theorem at three payloads: \<^verbatim>\<open>{}\<close>, \<^verbatim>\<open>{"wifi": {}}\<close> and
  \<^verbatim>\<open>{"wifi": {"rssi": -60}}\<close>.
\<close>

theorem Wifi_from_dict_present_witness:
  "Wifi_from_dict [] = Inr None \<and>
   Wifi_from_dict [(''wifi'', PDict [])] = Inr (Some \<lparr>
        bssid = PStr ''00:00:00:00:00:00'', channel = PInt 0, rssi = PInt 0, signal = PInt 0 \<rparr>) \<and>
   Wifi_from_dict [(''wifi'', PDict [(''rssi'', PInt (- 60))])] = Inr (Some \<lparr>
        bssid = PStr ''00:00:00:00:00:00'', channel = PInt 0, rssi = PInt (- 60), signal = PInt 0 \<rparr>)"
  using Wifi_from_dict_present [of "[]"] Wifi_from_dict_present [of "[(''wifi'', PDict [])]"]
    Wifi_from_dict_present [of "[(''wifi'', PDict [(''rssi'', PInt (- 60))])]"]
  by (simp add: dict_contains_def dict_get_def)

text \<open>A value under \<^verbatim>\<open>"wifi"\<close> that is not a mapping has no \<^verbatim>\<open>get\<close>.\<close>

lemma Wifi_from_dict_not_mapping:
  assumes "map_of data ''wifi'' = Some v" and "\<forall>w. v \<noteq> PDict w"
  shows "Wifi_from_dict data = Inl AttributeError"
  using assms by (cases v) (auto simp: Wifi_from_dict_def dict_contains_def dict_get_def)

section \<open>Catalogs sorted by name\<close>

text \<open>
  \<open>sort_key\<close> leaves a list of fewer than two items as it is, and it is stable: items
  with equal keys stay in the order they had.
\<close>

lemma sort_key_short: "length xs < 2 \<Longrightarrow> sort_key f xs = xs"
  by (cases xs rule: list.exhaust; cases "tl xs"; auto)

lemma sort_by_name_strings:
  "list_all (\<lambda>x. is_str (key x)) xs \<Longrightarrow>
     sort_by_name key xs = Inr (sort_key (\<lambda>x. str_key (key x)) xs)"
  by (simp add: sort_by_name_def sort_key_short)

lemma sorted_wrt_filter_iff:
  "sorted_wrt P (filter Q ys) = sorted_wrt (\<lambda>x y. Q x \<longrightarrow> Q y \<longrightarrow> P x y) ys"
  by (induction ys) auto

lemma sort_key_stable_nth:
  assumes "sorted_wrt (\<lambda>x y. g x < g y) xs"
    and "i < j" "j < length xs"
    and "f (sort_key f xs ! i) = f (sort_key f xs ! j)"
  shows "g (sort_key f xs ! i) < g (sort_key f xs ! j)"
proof -
  let ?ys = "sort_key f xs"
  let ?k = "f (?ys ! j)"
  let ?Q = "\<lambda>y. f y = ?k"
  from assms(1) have "sorted_wrt (\<lambda>x y. g x < g y) (filter ?Q xs)"
    by (rule sorted_wrt_filter)
  then have "sorted_wrt (\<lambda>x y. g x < g y) (filter ?Q ?ys)"
    by (simp only: sort_key_stable)
  then have "sorted_wrt (\<lambda>x y. ?Q x \<longrightarrow> ?Q y \<longrightarrow> g x < g y) ?ys"
    by (simp only: sorted_wrt_filter_iff)
  with assms(2,3) have "?Q (?ys ! i) \<longrightarrow> ?Q (?ys ! j) \<longrightarrow> g (?ys ! i) < g (?ys ! j)"
    by (simp add: sorted_wrt_iff_nth_less)
  with assms(4) show ?thesis by simp
qed

lemma sorted_wrt_less_distinct:
  fixes g :: "'a \<Rightarrow> int"
  shows "sorted_wrt (\<lambda>x y. g x < g y) xs \<Longrightarrow> distinct (map g xs)"
  by (induction xs) auto

lemma distinct_map_sort_key: "distinct (map g (sort_key f xs)) = distinct (map g xs)"
  by (simp add: distinct_map)

lemma catalog_sorted:
  fixes mk :: "nat \<times> pyval \<Rightarrow> 'a" and key :: "'a \<Rightarrow> pyval" and ident :: "'a \<Rightarrow> int"
  assumes key: "\<And>k v. key (mk (k, v)) = v" and ident: "\<And>k v. ident (mk (k, v)) = int k"
    and sort: "sort_by_name key (map mk (enumerate 0 (map PStr ns))) = Inr es"
  shows "sorted (map (\<lambda>e. str_key (key e)) es) \<and>
         length es = length ns \<and>
         distinct (map ident es) \<and>
         (\<forall>e\<in>set es. \<exists>k<length ns. ident e = int k \<and> key e = PStr (ns ! k)) \<and>
         (\<forall>i j. i < j \<and> j < length es \<and> key (es ! i) = key (es ! j) \<longrightarrow>
                ident (es ! i) < ident (es ! j))"
proof -
  let ?xs = "map mk (enumerate 0 (map PStr ns))"
  let ?f = "\<lambda>e. str_key (key e)"
  have len: "length ?xs = length ns" by simp
  have nth: "?xs ! k = mk (k, PStr (ns ! k))" if "k < length ns" for k
    using that by (simp add: nth_enumerate_eq)
  have "list_all (\<lambda>x. is_str (key x)) ?xs"
    unfolding list_all_length len by (auto simp: nth_enumerate_eq key)
  with sort have es: "es = sort_key ?f ?xs"
    by (simp add: sort_by_name_strings)
  have ids: "sorted_wrt (\<lambda>x y. ident x < ident y) ?xs"
    unfolding sorted_wrt_iff_nth_less len by (auto simp: nth_enumerate_eq ident)
  have 1: "sorted (map ?f es)"
    unfolding es by (rule sorted_sort_key)
  have 2: "length es = length ns"
    unfolding es by simp
  have "distinct (map ident ?xs)"
    using ids by (rule sorted_wrt_less_distinct)
  then have 3: "distinct (map ident es)"
    unfolding es by (simp only: distinct_map_sort_key)
  have 4: "\<exists>k<length ns. ident e = int k \<and> key e = PStr (ns ! k)" if "e \<in> set es" for e
  proof -
    from that have "e \<in> set ?xs" unfolding es by simp
    then obtain k where "k < length ?xs" "?xs ! k = e"
      unfolding in_set_conv_nth by blast
    with nth [of k] have "k < length ns" "e = mk (k, PStr (ns ! k))"
      by simp_all
    then show ?thesis by (auto simp: key ident)
  qed
  have 5: "ident (es ! i) < ident (es ! j)"
    if "i < j" "j < length es" "key (es ! i) = key (es ! j)" for i j
  proof -
    from that(2) have "j < length ?xs" unfolding es by simp
    moreover from that(3) have "?f (sort_key ?f ?xs ! i) = ?f (sort_key ?f ?xs ! j)"
      unfolding es by simp
    ultimately show ?thesis
      unfolding es using ids that(1) by (intro sort_key_stable_nth)
  qed
  from 1 2 3 4 5 show ?thesis by blast
qed

section \<open>Updating a Device\<close>

text \<open>What each statement of \<^verbatim>\<open>update_from_dict\<close> does when it does not raise.\<close>

lemma update_effects_Inr:
  assumes "update_effects self data = Inr self1"
  shows "palettes self1 = palettes self \<and> info self1 = info self \<and> state self1 = state self \<and>
    (if truthy (dict_get data ''effects'' PNone)
     then \<exists>items. py_iter (dict_get data ''effects'' PNone) = Inr items \<and>
            sort_by_name name_fx
              (map (\<lambda>(effect_id', effect'). \<lparr> effect_id = int effect_id', name_fx = effect' \<rparr>)
                 (enumerate 0 items)) = Inr (effects self1)
     else effects self1 = effects self)"
  using assms by (auto simp: update_effects_def Let_def split: if_splits sum.splits)

lemma update_palettes_Inr:
  assumes "update_palettes self data = Inr self1"
  shows "effects self1 = effects self \<and> info self1 = info self \<and> state self1 = state self \<and>
    (if truthy (dict_get data ''palettes'' PNone)
     then \<exists>items. py_iter (dict_get data ''palettes'' PNone) = Inr items \<and>
            sort_by_name name_pal
              (map (\<lambda>(palette_id', palette'). \<lparr> name_pal = palette', palette_id = int palette_id' \<rparr>)
                 (enumerate 0 items)) = Inr (palettes self1)
     else palettes self1 = palettes self)"
  using assms by (auto simp: update_palettes_def Let_def split: if_splits sum.splits)

lemma update_info_Inr:
  assumes "update_info self data = Inr self1"
  shows "effects self1 = effects self \<and> palettes self1 = palettes self \<and> state self1 = state self \<and>
    (if truthy (dict_get data ''info'' PNone)
     then \<exists>d i. dict_get data ''info'' PNone = PDict d \<and> Info_from_dict d = Inr i \<and>
            info self1 = Some i
     else info self1 = info self)"
  using assms
  by (cases "dict_get data ''info'' PNone")
    (auto simp: update_info_def Let_def split: if_splits sum.splits)

lemma update_state_result:
  assumes "update_state self data = (self', data', raised)"
  shows "effects self' = effects self \<and> palettes self' = palettes self \<and> info self' = info self \<and>
    (if truthy (dict_get data ''state'' PNone)
     then (raised = None \<longrightarrow>
            (\<exists>d d' s. dict_get data ''state'' PNone = PDict d \<and>
               State_from_dict d (effects self) (palettes self) = (d', Inr s) \<and>
               state self' = Some s)) \<and>
          (raised \<noteq> None \<longrightarrow> state self' = state self)
     else state self' = state self \<and> data' = data \<and> raised = None)"
  using assms
  by (cases "dict_get data ''state'' PNone")
    (auto simp: update_state_def Let_def split: if_splits sum.splits prod.splits)

text \<open>
  C3. After \<^verbatim>\<open>update_from_dict\<close>, each of \<^verbatim>\<open>effects\<close>, \<^verbatim>\<open>palettes\<close>, \<^verbatim>\<open>info\<close> and
  \<^verbatim>\<open>state\<close> whose value in the payload is falsy or absent is as it was before, also
  when the call raises. When the call returns, each field whose payload value is truthy
  has been replaced by what the payload decodes to, whatever the field held before; the
  state is decoded against the effect and palette tables that the object has after the
  call (the former tables when the payload has none, the new ones otherwise).
\<close>

theorem Device_update_from_dict_fields:
  assumes "Device_update_from_dict self data = (self', data', raised)"
  shows "(\<not> truthy (dict_get data ''effects'' PNone) \<longrightarrow> effects self' = effects self) \<and>
         (\<not> truthy (dict_get data ''palettes'' PNone) \<longrightarrow> palettes self' = palettes self) \<and>
         (\<not> truthy (dict_get data ''info'' PNone) \<longrightarrow> info self' = info self) \<and>
         (\<not> truthy (dict_get data ''state'' PNone) \<longrightarrow> state self' = state self) \<and>
         (raised = None \<longrightarrow>
            (truthy (dict_get data ''effects'' PNone) \<longrightarrow>
               (\<exists>items. py_iter (dict_get data ''effects'' PNone) = Inr items \<and>
                  sort_by_name name_fx
                    (map (\<lambda>(effect_id', effect'). \<lparr> effect_id = int effect_id', name_fx = effect' \<rparr>)
                       (enumerate 0 items)) = Inr (effects self'))) \<and>
            (truthy (dict_get data ''palettes'' PNone) \<longrightarrow>
               (\<exists>items. py_iter (dict_get data ''palettes'' PNone) = Inr items \<and>
                  sort_by_name name_pal
                    (map (\<lambda>(palette_id', palette'). \<lparr> name_pal = palette', palette_id = int palette_id' \<rparr>)
                       (enumerate 0 items)) = Inr (palettes self'))) \<and>
            (truthy (dict_get data ''info'' PNone) \<longrightarrow>
               (\<exists>d i. dict_get data ''info'' PNone = PDict d \<and> Info_from_dict d = Inr i \<and>
                  info self' = Some i)) \<and>
            (truthy (dict_get data ''state'' PNone) \<longrightarrow>
               (\<exists>d d' s. dict_get data ''state'' PNone = PDict d \<and>
                  State_from_dict d (effects self') (palettes self') = (d', Inr s) \<and>
                  state self' = Some s)))"
proof (cases "update_effects self data")
  case (Inl e)
  with assms show ?thesis
    by (auto simp: Device_update_from_dict_def)
next
  case e: (Inr self1)
  note 1 = update_effects_Inr [OF e]
  show ?thesis
  proof (cases "update_palettes self1 data")
    case (Inl e)
    with assms e 1 show ?thesis
      by (auto simp: Device_update_from_dict_def split: if_splits)
  next
    case p: (Inr self2)
    note 2 = update_palettes_Inr [OF p]
    show ?thesis
    proof (cases "update_info self2 data")
      case (Inl e)
      with assms e p 1 2 show ?thesis
        by (auto simp: Device_update_from_dict_def split: if_splits)
    next
      case i: (Inr self3)
      note 3 = update_info_Inr [OF i]
      from assms e p i have "update_state self3 data = (self', data', raised)"
        by (simp add: Device_update_from_dict_def)
      note 4 = update_state_result [OF this]
      from 1 2 3 4 have fx: "effects self' = effects self1" and pal: "palettes self' = palettes self2"
        and inf: "info self' = info self3"
        and same: "effects self3 = effects self'" "palettes self3 = palettes self'"
        by simp_all
      from 1 have A: "\<not> truthy (dict_get data ''effects'' PNone) \<longrightarrow> effects self' = effects self"
        and A': "truthy (dict_get data ''effects'' PNone) \<longrightarrow>
               (\<exists>items. py_iter (dict_get data ''effects'' PNone) = Inr items \<and>
                  sort_by_name name_fx
                    (map (\<lambda>(effect_id', effect'). \<lparr> effect_id = int effect_id', name_fx = effect' \<rparr>)
                       (enumerate 0 items)) = Inr (effects self'))"
        unfolding fx by (simp_all split: if_splits)
      from 2 1 have B: "\<not> truthy (dict_get data ''palettes'' PNone) \<longrightarrow> palettes self' = palettes self"
        and B': "truthy (dict_get data ''palettes'' PNone) \<longrightarrow>
               (\<exists>items. py_iter (dict_get data ''palettes'' PNone) = Inr items \<and>
                  sort_by_name name_pal
                    (map (\<lambda>(palette_id', palette'). \<lparr> name_pal = palette', palette_id = int palette_id' \<rparr>)
                       (enumerate 0 items)) = Inr (palettes self'))"
        unfolding pal by (simp_all split: if_splits)
      from 3 2 1 have C: "\<not> truthy (dict_get data ''info'' PNone) \<longrightarrow> info self' = info self"
        and C': "truthy (dict_get data ''info'' PNone) \<longrightarrow>
               (\<exists>d i. dict_get data ''info'' PNone = PDict d \<and> Info_from_dict d = Inr i \<and>
                  info self' = Some i)"
        unfolding inf by (simp_all split: if_splits)
      from 4 3 2 1 have D: "\<not> truthy (dict_get data ''state'' PNone) \<longrightarrow> state self' = state self"
        by (simp split: if_splits)
      from 4 have D': "raised = None \<longrightarrow> truthy (dict_get data ''state'' PNone) \<longrightarrow>
               (\<exists>d d' s. dict_get data ''state'' PNone = PDict d \<and>
                  State_from_dict d (effects self') (palettes self') = (d', Inr s) \<and>
                  state self' = Some s)"
        unfolding same by (simp split: if_splits)
      from A A' B B' C C' D D' show ?thesis by blast
    qed
  qed
qed

text \<open>
  The theorem at two updates: a new object updated with effects, palettes and info but
  no state, and an object with the tables \<^verbatim>\<open>[Blink(1), Solid(0)]\<close> and \<^verbatim>\<open>[Default(0)]\<close>
  updated with \<^verbatim>\<open>{"state": {"seg": [{"fx": 1}]}}\<close> only: the tables stay, and the segment's
  effect is Blink, from the former table.
\<close>

theorem Device_update_from_dict_fields_witness:
  "snd (snd (Device_update_from_dict Device_class
      [(''effects'', PList [PStr ''Solid'', PStr ''Blink'']),
       (''palettes'', PList [PStr ''Default'']),
       (''info'', PDict [(''ver'', PStr ''0.13.0'')])])) = None \<and>
   state (fst (Device_update_from_dict Device_class
      [(''effects'', PList [PStr ''Solid'', PStr ''Blink'']),
       (''palettes'', PList [PStr ''Default'']),
       (''info'', PDict [(''ver'', PStr ''0.13.0'')])])) = None \<and>
   map_option version (info (fst (Device_update_from_dict Device_class
      [(''effects'', PList [PStr ''Solid'', PStr ''Blink'']),
       (''palettes'', PList [PStr ''Default'']),
       (''info'', PDict [(''ver'', PStr ''0.13.0'')])]))) = Some (PStr ''0.13.0'') \<and>
   snd (snd (Device_update_from_dict
      \<lparr> effects = [\<lparr> effect_id = 1, name_fx = PStr ''Blink'' \<rparr>,
                   \<lparr> effect_id = 0, name_fx = PStr ''Solid'' \<rparr>],
        info = None,
        palettes = [\<lparr> name_pal = PStr ''Default'', palette_id = 0 \<rparr>],
        state = None \<rparr>
      [(''state'', PDict [(''seg'', PList [PDict [(''fx'', PInt 1)]])])])) = None \<and>
   effects (fst (Device_update_from_dict
      \<lparr> effects = [\<lparr> effect_id = 1, name_fx = PStr ''Blink'' \<rparr>,
                   \<lparr> effect_id = 0, name_fx = PStr ''Solid'' \<rparr>],
        info = None,
        palettes = [\<lparr> name_pal = PStr ''Default'', palette_id = 0 \<rparr>],
        state = None \<rparr>
      [(''state'', PDict [(''seg'', PList [PDict [(''fx'', PInt 1)]])])]))
     = [\<lparr> effect_id = 1, name_fx = PStr ''Blink'' \<rparr>, \<lparr> effect_id = 0, name_fx = PStr ''Solid'' \<rparr>] \<and>
   map_option (\<lambda>s. map (\<lambda>seg. name_fx (effect seg)) (segments s))
     (state (fst (Device_update_from_dict
      \<lparr> effects = [\<lparr> effect_id = 1, name_fx = PStr ''Blink'' \<rparr>,
                   \<lparr> effect_id = 0, name_fx = PStr ''Solid'' \<rparr>],
        info = None,
        palettes = [\<lparr> name_pal = PStr ''Default'', palette_id = 0 \<rparr>],
        state = None \<rparr>
      [(''state'', PDict [(''seg'', PList [PDict [(''fx'', PInt 1)]])])])))
     = Some [PStr ''Blink'']"
proof -
  let ?P1 = "[(''effects'', PList [PStr ''Solid'', PStr ''Blink'']),
       (''palettes'', PList [PStr ''Default'']),
       (''info'', PDict [(''ver'', PStr ''0.13.0'')])]"
  let ?D1 = "Device_update_from_dict Device_class ?P1"
  let ?self = "\<lparr> effects = [\<lparr> effect_id = 1, name_fx = PStr ''Blink'' \<rparr>,
                   \<lparr> effect_id = 0, name_fx = PStr ''Solid'' \<rparr>],
        info = None,
        palettes = [\<lparr> name_pal = PStr ''Default'', palette_id = 0 \<rparr>],
        state = None \<rparr>"
  let ?P2 = "[(''state'', PDict [(''seg'', PList [PDict [(''fx'', PInt 1)]])])]"
  let ?D2 = "Device_update_from_dict ?self ?P2"
  have dec1: "?D1 = (fst ?D1, fst (snd ?D1), snd (snd ?D1))"
    and dec2: "?D2 = (fst ?D2, fst (snd ?D2), snd (snd ?D2))"
    by simp_all
  have r1: "snd (snd ?D1) = None" and r2: "snd (snd ?D2) = None"
    by code_simp+
  from Device_update_from_dict_fields [OF dec1]
  have s1: "state (fst ?D1) = None"
    by (simp add: dict_get_def Device_class_def)
  from Device_update_from_dict_fields [OF dec1] r1
  obtain d i where "dict_get ?P1 ''info'' PNone = PDict d" "Info_from_dict d = Inr i"
    "info (fst ?D1) = Some i"
    by (auto simp: dict_get_def)
  then have i1: "map_option version (info (fst ?D1)) = Some (PStr ''0.13.0'')"
    by (auto simp: dict_get_def Info_from_dict_def Let_def split: sum.splits)
  from Device_update_from_dict_fields [OF dec2]
  have e2: "effects (fst ?D2) = effects ?self" and p2: "palettes (fst ?D2) = palettes ?self"
    by (simp_all add: dict_get_def)
  from Device_update_from_dict_fields [OF dec2] r2
  obtain d d' s where "dict_get ?P2 ''state'' PNone = PDict d"
    "State_from_dict d (effects (fst ?D2)) (palettes (fst ?D2)) = (d', Inr s)"
    "state (fst ?D2) = Some s"
    by (auto simp: dict_get_def)
  then have "State_from_dict [(''seg'', PList [PDict [(''fx'', PInt 1)]])] (effects ?self) (palettes ?self)
      = (d', Inr s)" and st: "state (fst ?D2) = Some s"
    unfolding e2 p2 by (simp_all add: dict_get_def)
  then have "map (\<lambda>seg. name_fx (effect seg)) (segments s) = [PStr ''Blink'']"
    by (auto simp: State_from_dict_def Segment_from_dict_def dict_get_def py_sub_def pop_colors_def
        pop_color_def py_eq_int_def Nightlight_from_dict_def Sync_from_dict_def Let_def)
  with st have s2: "map_option (\<lambda>s. map (\<lambda>seg. name_fx (effect seg)) (segments s)) (state (fst ?D2))
     = Some [PStr ''Blink'']"
    by simp
  from r1 s1 i1 r2 e2 s2 show ?thesis
    by simp
qed

text \<open>The tables after the call are those that the first two statements assigned.\<close>

lemma Device_update_from_dict_effects:
  assumes "Device_update_from_dict self data = (self', data', raised)"
    and "update_effects self data = Inr self1"
  shows "effects self' = effects self1"
proof (cases "update_palettes self1 data")
  case (Inl e)
  with assms show ?thesis by (auto simp: Device_update_from_dict_def)
next
  case p: (Inr self2)
  show ?thesis
  proof (cases "update_info self2 data")
    case (Inl e)
    with assms p update_palettes_Inr [OF p] show ?thesis
      by (auto simp: Device_update_from_dict_def)
  next
    case i: (Inr self3)
    with assms p have "update_state self3 data = (self', data', raised)"
      by (simp add: Device_update_from_dict_def)
    from update_state_result [OF this] update_info_Inr [OF i] update_palettes_Inr [OF p]
    show ?thesis by simp
  qed
qed

lemma Device_update_from_dict_palettes:
  assumes "Device_update_from_dict self data = (self', data', raised)"
    and "update_effects self data = Inr self1"
    and "update_palettes self1 data = Inr self2"
  shows "palettes self' = palettes self2"
proof (cases "update_info self2 data")
  case (Inl e)
  with assms show ?thesis
    by (auto simp: Device_update_from_dict_def)
next
  case i: (Inr self3)
  with assms have "update_state self3 data = (self', data', raised)"
    by (simp add: Device_update_from_dict_def)
  from update_state_result [OF this] update_info_Inr [OF i]
  show ?thesis by simp
qed

lemma update_effects_strings:
  assumes "dict_get data ''effects'' PNone = PList (map PStr ns)" and "ns \<noteq> []"
  shows "\<exists>self1. update_effects self data = Inr self1 \<and>
    sort_by_name name_fx
      (map (\<lambda>(effect_id', effect'). \<lparr> effect_id = int effect_id', name_fx = effect' \<rparr>)
         (enumerate 0 (map PStr ns))) = Inr (effects self1)"
proof -
  let ?xs = "map (\<lambda>(effect_id', effect'). \<lparr> effect_id = int effect_id', name_fx = effect' \<rparr>)
         (enumerate 0 (map PStr ns))"
  have "list_all (\<lambda>x. is_str (name_fx x)) ?xs"
    unfolding list_all_length by (auto simp: nth_enumerate_eq)
  then have "sort_by_name name_fx ?xs = Inr (sort_key (\<lambda>x. str_key (name_fx x)) ?xs)"
    by (rule sort_by_name_strings)
  with assms show ?thesis
    by (simp add: update_effects_def)
qed

lemma update_palettes_strings:
  assumes "dict_get data ''palettes'' PNone = PList (map PStr ns)" and "ns \<noteq> []"
  shows "\<exists>self1. update_palettes self data = Inr self1 \<and>
    sort_by_name name_pal
      (map (\<lambda>(palette_id', palette'). \<lparr> name_pal = palette', palette_id = int palette_id' \<rparr>)
         (enumerate 0 (map PStr ns))) = Inr (palettes self1)"
proof -
  let ?xs = "map (\<lambda>(palette_id', palette'). \<lparr> name_pal = palette', palette_id = int palette_id' \<rparr>)
         (enumerate 0 (map PStr ns))"
  have "list_all (\<lambda>x. is_str (name_pal x)) ?xs"
    unfolding list_all_length by (auto simp: nth_enumerate_eq)
  then have "sort_by_name name_pal ?xs = Inr (sort_key (\<lambda>x. str_key (name_pal x)) ?xs)"
    by (rule sort_by_name_strings)
  with assms show ?thesis
    by (simp add: update_palettes_def)
qed

text \<open>
  C4. When the payload has a non-empty list of names under \<^verbatim>\<open>"effects"\<close>, the effect
  table after the update is sorted by name, has one entry for each name, each with its
  position in the payload's list as identifier, and entries with equal names are in the
  order of their identifiers. The same holds of the palette table and \<^verbatim>\<open>"palettes"\<close>,
  when the statement for the effects did not raise (the palettes are rebuilt after it).
\<close>

theorem Device_update_from_dict_catalogs_sorted:
  assumes "Device_update_from_dict self data = (self', data', raised)"
  shows "(\<forall>ns. dict_get data ''effects'' PNone = PList (map PStr ns) \<and> ns \<noteq> [] \<longrightarrow>
            sorted (map (\<lambda>e. str_key (name_fx e)) (effects self')) \<and>
            length (effects self') = length ns \<and>
            distinct (map effect_id (effects self')) \<and>
            (\<forall>e\<in>set (effects self'). \<exists>k<length ns. effect_id e = int k \<and> name_fx e = PStr (ns ! k)) \<and>
            (\<forall>i j. i < j \<and> j < length (effects self') \<and>
                   name_fx (effects self' ! i) = name_fx (effects self' ! j) \<longrightarrow>
                   effect_id (effects self' ! i) < effect_id (effects self' ! j))) \<and>
         (\<forall>ns. dict_get data ''palettes'' PNone = PList (map PStr ns) \<and> ns \<noteq> [] \<and>
               (\<exists>self1. update_effects self data = Inr self1) \<longrightarrow>
            sorted (map (\<lambda>e. str_key (name_pal e)) (palettes self')) \<and>
            length (palettes self') = length ns \<and>
            distinct (map palette_id (palettes self')) \<and>
            (\<forall>e\<in>set (palettes self'). \<exists>k<length ns. palette_id e = int k \<and> name_pal e = PStr (ns ! k)) \<and>
            (\<forall>i j. i < j \<and> j < length (palettes self') \<and>
                   name_pal (palettes self' ! i) = name_pal (palettes self' ! j) \<longrightarrow>
                   palette_id (palettes self' ! i) < palette_id (palettes self' ! j)))"
proof -
  have fx: "sorted (map (\<lambda>e. str_key (name_fx e)) (effects self')) \<and>
            length (effects self') = length ns \<and>
            distinct (map effect_id (effects self')) \<and>
            (\<forall>e\<in>set (effects self'). \<exists>k<length ns. effect_id e = int k \<and> name_fx e = PStr (ns ! k)) \<and>
            (\<forall>i j. i < j \<and> j < length (effects self') \<and>
                   name_fx (effects self' ! i) = name_fx (effects self' ! j) \<longrightarrow>
                   effect_id (effects self' ! i) < effect_id (effects self' ! j))"
    if ns: "dict_get data ''effects'' PNone = PList (map PStr ns)" "ns \<noteq> []" for ns
  proof -
    from update_effects_strings [OF ns] obtain self1 where
      1: "update_effects self data = Inr self1"
      and sort: "sort_by_name name_fx
        (map (\<lambda>(effect_id', effect'). \<lparr> effect_id = int effect_id', name_fx = effect' \<rparr>)
           (enumerate 0 (map PStr ns))) = Inr (effects self1)"
      by blast
    from Device_update_from_dict_effects [OF assms 1] have eq: "effects self' = effects self1" .
    show ?thesis
      unfolding eq by (rule catalog_sorted [OF _ _ sort]) simp_all
  qed
  have pal: "sorted (map (\<lambda>e. str_key (name_pal e)) (palettes self')) \<and>
            length (palettes self') = length ns \<and>
            distinct (map palette_id (palettes self')) \<and>
            (\<forall>e\<in>set (palettes self'). \<exists>k<length ns. palette_id e = int k \<and> name_pal e = PStr (ns ! k)) \<and>
            (\<forall>i j. i < j \<and> j < length (palettes self') \<and>
                   name_pal (palettes self' ! i) = name_pal (palettes self' ! j) \<longrightarrow>
                   palette_id (palettes self' ! i) < palette_id (palettes self' ! j))"
    if ns: "dict_get data ''palettes'' PNone = PList (map PStr ns)" "ns \<noteq> []"
      and 1: "update_effects self data = Inr self1" for ns self1
  proof -
    from update_palettes_strings [OF ns] obtain self2 where
      2: "update_palettes self1 data = Inr self2"
      and sort: "sort_by_name name_pal
        (map (\<lambda>(palette_id', palette'). \<lparr> name_pal = palette', palette_id = int palette_id' \<rparr>)
           (enumerate 0 (map PStr ns))) = Inr (palettes self2)"
      by blast
    from Device_update_from_dict_palettes [OF assms 1 2] have eq: "palettes self' = palettes self2" .
    show ?thesis
      unfolding eq by (rule catalog_sorted [OF _ _ sort]) simp_all
  qed
  show ?thesis
  proof (rule conjI)
    show "\<forall>ns. dict_get data ''effects'' PNone = PList (map PStr ns) \<and> ns \<noteq> [] \<longrightarrow>
            sorted (map (\<lambda>e. str_key (name_fx e)) (effects self')) \<and>
            length (effects self') = length ns \<and>
            distinct (map effect_id (effects self')) \<and>
            (\<forall>e\<in>set (effects self'). \<exists>k<length ns. effect_id e = int k \<and> name_fx e = PStr (ns ! k)) \<and>
            (\<forall>i j. i < j \<and> j < length (effects self') \<and>
                   name_fx (effects self' ! i) = name_fx (effects self' ! j) \<longrightarrow>
                   effect_id (effects self' ! i) < effect_id (effects self' ! j))"
      by (intro allI impI, elim conjE) (rule fx)
    show "\<forall>ns. dict_get data ''palettes'' PNone = PList (map PStr ns) \<and> ns \<noteq> [] \<and>
               (\<exists>self1. update_effects self data = Inr self1) \<longrightarrow>
            sorted (map (\<lambda>e. str_key (name_pal e)) (palettes self')) \<and>
            length (palettes self') = length ns \<and>
            distinct (map palette_id (palettes self')) \<and>
            (\<forall>e\<in>set (palettes self'). \<exists>k<length ns. palette_id e = int k \<and> name_pal e = PStr (ns ! k)) \<and>
            (\<forall>i j. i < j \<and> j < length (palettes self') \<and>
                   name_pal (palettes self' ! i) = name_pal (palettes self' ! j) \<longrightarrow>
                   palette_id (palettes self' ! i) < palette_id (palettes self' ! j))"
      by (intro allI impI, elim conjE exE) (rule pal)
  qed
qed

text \<open>
  The theorem at the effects \<^verbatim>\<open>["Solid", "Blink", "Android", "Blink"]\<close> and the palettes
  \<^verbatim>\<open>["Party", "Default"]\<close>.
\<close>

theorem Device_update_from_dict_catalogs_sorted_witness:
  "effects (fst (Device_update_from_dict Device_class
      [(''effects'', PList [PStr ''Solid'', PStr ''Blink'', PStr ''Android'', PStr ''Blink'']),
       (''palettes'', PList [PStr ''Party'', PStr ''Default''])]))
     = [\<lparr> effect_id = 2, name_fx = PStr ''Android'' \<rparr>,
        \<lparr> effect_id = 1, name_fx = PStr ''Blink'' \<rparr>,
        \<lparr> effect_id = 3, name_fx = PStr ''Blink'' \<rparr>,
        \<lparr> effect_id = 0, name_fx = PStr ''Solid'' \<rparr>] \<and>
   palettes (fst (Device_update_from_dict Device_class
      [(''effects'', PList [PStr ''Solid'', PStr ''Blink'', PStr ''Android'', PStr ''Blink'']),
       (''palettes'', PList [PStr ''Party'', PStr ''Default''])]))
     = [\<lparr> name_pal = PStr ''Default'', palette_id = 1 \<rparr>,
        \<lparr> name_pal = PStr ''Party'', palette_id = 0 \<rparr>] \<and>
   sorted [''Android'', ''Blink'', ''Blink'', ''Solid''] \<and> sorted [''Default'', ''Party'']"
proof -
  let ?fx = "[''Solid'', ''Blink'', ''Android'', ''Blink'']"
  let ?pal = "[''Party'', ''Default'']"
  let ?P = "[(''effects'', PList [PStr ''Solid'', PStr ''Blink'', PStr ''Android'', PStr ''Blink'']),
       (''palettes'', PList [PStr ''Party'', PStr ''Default''])]"
  let ?D = "Device_update_from_dict Device_class ?P"
  have dec: "?D = (fst ?D, fst (snd ?D), snd (snd ?D))"
    by simp
  have fx: "dict_get ?P ''effects'' PNone = PList (map PStr ?fx) \<and> ?fx \<noteq> []"
    by (simp add: dict_get_def)
  have "dict_get ?P ''palettes'' PNone = PList (map PStr ?pal)"
    by (simp add: dict_get_def)
  moreover from update_effects_strings [of ?P ?fx Device_class] fx
  have "\<exists>self1. update_effects Device_class ?P = Inr self1"
    by blast
  ultimately have pal: "dict_get ?P ''palettes'' PNone = PList (map PStr ?pal) \<and> ?pal \<noteq> [] \<and>
      (\<exists>self1. update_effects Device_class ?P = Inr self1)"
    by simp
  note inst = Device_update_from_dict_catalogs_sorted [OF dec]
  from inst [THEN conjunct1, rule_format, OF fx]
  have 1: "sorted (map (\<lambda>e. str_key (name_fx e)) (effects (fst ?D)))"
    by (rule conjunct1)
  from inst [THEN conjunct2, rule_format, OF pal]
  have 2: "sorted (map (\<lambda>e. str_key (name_pal e)) (palettes (fst ?D)))"
    by (rule conjunct1)
  have 3: "effects (fst ?D)
     = [\<lparr> effect_id = 2, name_fx = PStr ''Android'' \<rparr>,
        \<lparr> effect_id = 1, name_fx = PStr ''Blink'' \<rparr>,
        \<lparr> effect_id = 3, name_fx = PStr ''Blink'' \<rparr>,
        \<lparr> effect_id = 0, name_fx = PStr ''Solid'' \<rparr>]"
    by code_simp
  have 4: "palettes (fst ?D)
     = [\<lparr> name_pal = PStr ''Default'', palette_id = 1 \<rparr>,
        \<lparr> name_pal = PStr ''Party'', palette_id = 0 \<rparr>]"
    by code_simp
  from 1 have "sorted [''Android'', ''Blink'', ''Blink'', ''Solid'']"
    unfolding 3 by (simp only: list.map Effect.select_convs str_key.simps)
  moreover from 2 have "sorted [''Default'', ''Party'']"
    unfolding 4 by (simp only: list.map Palette.select_convs str_key.simps)
  ultimately show ?thesis
    using 3 4 by (intro conjI)
qed

section \<open>The exceptions raised\<close>

text \<open>
  The exceptions that the decoders and \<^verbatim>\<open>update_from_dict\<close> can raise: \<^verbatim>\<open>TypeError\<close>,
  \<^verbatim>\<open>AttributeError\<close> and \<^verbatim>\<open>KeyError(0)\<close>, all from values of the wrong type in the
  payload.
\<close>

lemma py_iter_Inl: "py_iter v = Inl e \<Longrightarrow> e = TypeError"
  by (cases v) auto

lemma as_dict_Inl: "as_dict v = Inl e \<Longrightarrow> e = AttributeError"
  by (cases v) auto

lemma sort_by_name_Inl: "sort_by_name key xs = Inl e \<Longrightarrow> e = TypeError \<or> e = NotModelled"
  by (auto simp: sort_by_name_def split: if_splits)

lemma pop_color_Inl:
  "pop_color colors = (colors', Inl e) \<Longrightarrow>
     e = IndexError \<or> e = TypeError \<or> e = AttributeError \<or> e = KeyError (PInt 0)"
  by (cases colors rule: list_pop0.cases)
    (auto simp: pop_color_def dest: py_tuple_Inl split: sum.splits)

lemma pop_colors_raised:
  "pop_colors colors = (colors', slots, Some e) \<Longrightarrow>
     e = IndexError \<or> e = TypeError \<or> e = AttributeError \<or> e = KeyError (PInt 0)"
  by (auto simp: pop_colors_def split: prod.splits sum.splits dest: pop_color_Inl)

lemma except_IndexError_Some:
  "except_IndexError raised = Some e \<Longrightarrow> raised = Some e \<and> e \<noteq> IndexError"
  by (cases raised rule: except_IndexError.cases) auto

lemma py_sub_Inl: "py_sub a b = Inl e \<Longrightarrow> e = TypeError"
  by (auto simp: py_sub_def split: option.splits)

lemma Segment_from_dict_Inl:
  assumes "Segment_from_dict i data es ps on bri = (data', Inl e)"
  shows "e = TypeError \<or> e = AttributeError \<or> e = KeyError (PInt 0)"
  using assms
  by (auto simp: Segment_from_dict_def Let_def split: sum.splits prod.splits option.splits
      dest!: py_sub_Inl except_IndexError_Some dest: pop_colors_raised)

lemma decode_segments_Inl:
  "decode_segments n items es ps on bri = (items', Inl e) \<Longrightarrow>
     e = TypeError \<or> e = AttributeError \<or> e = KeyError (PInt 0)"
proof (induction items arbitrary: n items')
  case Nil
  then show ?case by simp
next
  case (Cons segment rest)
  then show ?case
    by (auto split: sum.splits prod.splits dest: as_dict_Inl Segment_from_dict_Inl)
qed

lemma Nightlight_from_dict_Inl: "Nightlight_from_dict data = Inl e \<Longrightarrow> e = AttributeError"
  by (auto simp: Nightlight_from_dict_def split: sum.splits dest: as_dict_Inl)

lemma Sync_from_dict_Inl: "Sync_from_dict data = Inl e \<Longrightarrow> e = AttributeError"
  by (auto simp: Sync_from_dict_def split: sum.splits dest: as_dict_Inl)

lemma State_from_dict_Inl:
  assumes "State_from_dict data es ps = (data', Inl e)"
  shows "e = TypeError \<or> e = AttributeError \<or> e = KeyError (PInt 0)"
  using assms
  by (auto simp: State_from_dict_def Let_def split: sum.splits prod.splits
      dest: py_iter_Inl decode_segments_Inl Nightlight_from_dict_Inl Sync_from_dict_Inl)

lemma Leds_from_dict_Inl: "Leds_from_dict data = Inl e \<Longrightarrow> e = AttributeError"
  by (auto simp: Leds_from_dict_def split: sum.splits dest: as_dict_Inl)

lemma Wifi_from_dict_Inl: "Wifi_from_dict data = Inl e \<Longrightarrow> e = AttributeError"
  by (auto simp: Wifi_from_dict_def split: sum.splits if_splits dest: as_dict_Inl)

lemma str_replace_underscore_Inl: "str_replace_underscore v = Inl e \<Longrightarrow> e = AttributeError"
  by (cases v) auto

lemma Info_from_dict_Inl: "Info_from_dict data = Inl e \<Longrightarrow> e = AttributeError"
  by (auto simp: Info_from_dict_def Let_def split: sum.splits
      dest: str_replace_underscore_Inl Leds_from_dict_Inl Wifi_from_dict_Inl)

lemma update_effects_Inl: "update_effects self data = Inl e \<Longrightarrow> e = TypeError \<or> e = NotModelled"
  by (auto simp: update_effects_def Let_def split: sum.splits if_splits
      dest: py_iter_Inl sort_by_name_Inl)

lemma update_palettes_Inl: "update_palettes self data = Inl e \<Longrightarrow> e = TypeError \<or> e = NotModelled"
  by (auto simp: update_palettes_def Let_def split: sum.splits if_splits
      dest: py_iter_Inl sort_by_name_Inl)

lemma update_info_Inl: "update_info self data = Inl e \<Longrightarrow> e = AttributeError"
  by (auto simp: update_info_def Let_def split: sum.splits if_splits
      dest: as_dict_Inl Info_from_dict_Inl)

lemma update_state_raised:
  "update_state self data = (self', data', Some e) \<Longrightarrow>
     e = TypeError \<or> e = AttributeError \<or> e = KeyError (PInt 0)"
  by (auto simp: update_state_def Let_def split: sum.splits prod.splits if_splits
      dest: as_dict_Inl State_from_dict_Inl)

lemma Device_update_from_dict_raised:
  assumes "Device_update_from_dict self data = (self', data', Some e)"
  shows "e = TypeError \<or> e = AttributeError \<or> e = KeyError (PInt 0) \<or> e = NotModelled"
proof (cases "update_effects self data")
  case (Inl e')
  with assms update_effects_Inl [OF Inl] show ?thesis
    by (auto simp: Device_update_from_dict_def)
next
  case 1: (Inr self1)
  show ?thesis
  proof (cases "update_palettes self1 data")
    case (Inl e')
    with assms 1 update_palettes_Inl [OF Inl] show ?thesis
      by (auto simp: Device_update_from_dict_def)
  next
    case 2: (Inr self2)
    show ?thesis
    proof (cases "update_info self2 data")
      case (Inl e')
      with assms 1 2 update_info_Inl [OF Inl] show ?thesis
        by (auto simp: Device_update_from_dict_def)
    next
      case (Inr self3)
      with assms 1 2 have "update_state self3 data = (self', data', Some e)"
        by (simp add: Device_update_from_dict_def)
      from update_state_raised [OF this] show ?thesis by blast
    qed
  qed
qed

section \<open>Construction of a Device\<close>

text \<open>
  The guard of \<^verbatim>\<open>__init__\<close> never yields \<^verbatim>\<open>True\<close>: at the first key that is missing,
  \<^verbatim>\<open>data[k]\<close> raises \<^verbatim>\<open>KeyError\<close>; with no key missing it is \<^verbatim>\<open>False\<close>. So a payload
  that lacks one of the four keys makes the constructor raise \<^verbatim>\<open>KeyError\<close> with the
  first key missing.
\<close>

lemma any_missing_find:
  "any_missing data ks =
     (case find (\<lambda>k. \<not> dict_contains k data) ks of
        None \<Rightarrow> Inr False
      | Some k \<Rightarrow> Inl (KeyError (PStr k)))"
  by (induction ks) (auto simp: dict_contains_def dict_getitem_def split: option.splits)

lemma any_missing_never_True: "any_missing data ks \<noteq> Inr True"
  by (simp add: any_missing_find split: option.splits)

lemma Device_init_missing_key:
  assumes "find (\<lambda>k. \<not> dict_contains k data) [''effects'', ''palettes'', ''info'', ''state''] = Some k"
  shows "Device_init data = (data, Inl (KeyError (PStr k)))"
  using assms by (simp add: Device_init_def any_missing_find)

text \<open>No payload makes the constructor raise \<^verbatim>\<open>WLEDError\<close>.\<close>

lemma Device_init_never_WLEDError: "snd (Device_init data) \<noteq> Inl WLEDError"
proof (cases "any_missing data [''effects'', ''palettes'', ''info'', ''state'']")
  case (Inl e)
  then show ?thesis
    by (auto simp: Device_init_def any_missing_find split: option.splits)
next
  case (Inr b)
  with any_missing_never_True [of data "[''effects'', ''palettes'', ''info'', ''state'']"]
  have guard: "any_missing data [''effects'', ''palettes'', ''info'', ''state''] = Inr False"
    by simp
  obtain self' data' raised where
    upd: "Device_update_from_dict Device_class data = (self', data', raised)"
    by (cases "Device_update_from_dict Device_class data")
  show ?thesis
  proof (cases raised)
    case None
    with guard upd show ?thesis by (simp add: Device_init_def)
  next
    case (Some e)
    with Device_update_from_dict_raised [of Device_class data self' data' e] guard upd
    show ?thesis by (auto simp: Device_init_def)
  qed
qed

text \<open>
  C1. The docstring of \<^verbatim>\<open>__init__\<close> promises \<^verbatim>\<open>WLEDError\<close> for an incomplete payload.
  On the empty payload \<^verbatim>\<open>{}\<close> the constructor raises \<^verbatim>\<open>KeyError('effects')\<close> instead:
  the guard evaluates \<^verbatim>\<open>data["effects"]\<close> for the key it has just found missing.
\<close>

theorem Device_init_empty_payload:
  "Device_init [] = ([], Inl (KeyError (PStr ''effects'')))"
  by (simp add: Device_init_def dict_contains_def dict_getitem_def)

section \<open>A Device without info or state\<close>

lemma Device_update_from_dict_None:
  assumes "Device_update_from_dict self data = (self', data', None)"
  shows "\<exists>self1 self2 self3.
    update_effects self data = Inr self1 \<and> update_palettes self1 data = Inr self2 \<and>
    update_info self2 data = Inr self3 \<and> update_state self3 data = (self', data', None)"
  using assms by (auto simp: Device_update_from_dict_def split: sum.splits)

lemma Device_init_Inr:
  assumes "Device_init data = (data', Inr self)"
  shows "Device_update_from_dict Device_class data = (self, data', None)"
  using assms
  by (auto simp: Device_init_def any_missing_never_True split: sum.splits bool.splits prod.splits option.splits)

lemma update_effects_returns:
  assumes "dict_get data ''effects'' PNone = e"
    and "\<not> truthy e \<or> (\<exists>ns. e = PList (map PStr ns))"
  shows "\<exists>self1. update_effects self data = Inr self1"
proof (cases "truthy e")
  case False
  with assms(1) show ?thesis by (simp add: update_effects_def)
next
  case True
  with assms(2) obtain ns where "e = PList (map PStr ns)" "ns \<noteq> []" by auto
  with assms(1) update_effects_strings [of data ns self] show ?thesis by blast
qed

lemma update_palettes_returns:
  assumes "dict_get data ''palettes'' PNone = p"
    and "\<not> truthy p \<or> (\<exists>ns. p = PList (map PStr ns))"
  shows "\<exists>self1. update_palettes self data = Inr self1"
proof (cases "truthy p")
  case False
  with assms(1) show ?thesis by (simp add: update_palettes_def)
next
  case True
  with assms(2) obtain ns where "p = PList (map PStr ns)" "ns \<noteq> []" by auto
  with assms(1) update_palettes_strings [of data ns self] show ?thesis by blast
qed

text \<open>
  C10. A payload that has the four keys, with falsy values under \<^verbatim>\<open>"info"\<close> and
  \<^verbatim>\<open>"state"\<close> (and a falsy value or a list of names under \<^verbatim>\<open>"effects"\<close> and under
  \<^verbatim>\<open>"palettes"\<close>), constructs a Device, and reading \<^verbatim>\<open>info\<close> or \<^verbatim>\<open>state\<close> of that
  Device raises \<^verbatim>\<open>AttributeError\<close>. For every Device constructed, a falsy \<^verbatim>\<open>"info"\<close>
  or \<^verbatim>\<open>"state"\<close> leaves the attribute unassigned, and a falsy \<^verbatim>\<open>"effects"\<close> or
  \<^verbatim>\<open>"palettes"\<close> leaves the class-level empty list.
\<close>

theorem Device_init_falsy_values:
  "(\<forall>e p i s.
      map_of data ''effects'' = Some e \<and> map_of data ''palettes'' = Some p \<and>
      map_of data ''info'' = Some i \<and> map_of data ''state'' = Some s \<and>
      \<not> truthy i \<and> \<not> truthy s \<and>
      (\<not> truthy e \<or> (\<exists>ns. e = PList (map PStr ns))) \<and>
      (\<not> truthy p \<or> (\<exists>ns. p = PList (map PStr ns))) \<longrightarrow>
      (\<exists>self. Device_init data = (data, Inr self) \<and>
         Device_info self = Inl AttributeError \<and> Device_state self = Inl AttributeError)) \<and>
   (\<forall>data' self. Device_init data = (data', Inr self) \<longrightarrow>
      (\<not> truthy (dict_get data ''info'' PNone) \<longrightarrow> Device_info self = Inl AttributeError) \<and>
      (\<not> truthy (dict_get data ''state'' PNone) \<longrightarrow> Device_state self = Inl AttributeError) \<and>
      (\<not> truthy (dict_get data ''effects'' PNone) \<longrightarrow> effects self = []) \<and>
      (\<not> truthy (dict_get data ''palettes'' PNone) \<longrightarrow> palettes self = []))"
proof (rule conjI)
  show "\<forall>data' self. Device_init data = (data', Inr self) \<longrightarrow>
      (\<not> truthy (dict_get data ''info'' PNone) \<longrightarrow> Device_info self = Inl AttributeError) \<and>
      (\<not> truthy (dict_get data ''state'' PNone) \<longrightarrow> Device_state self = Inl AttributeError) \<and>
      (\<not> truthy (dict_get data ''effects'' PNone) \<longrightarrow> effects self = []) \<and>
      (\<not> truthy (dict_get data ''palettes'' PNone) \<longrightarrow> palettes self = [])"
  proof (intro allI impI)
    fix data' self
    assume "Device_init data = (data', Inr self)"
    from Device_update_from_dict_None [OF Device_init_Inr [OF this]]
    obtain self1 self2 self3 where
      1: "update_effects Device_class data = Inr self1"
      and 2: "update_palettes self1 data = Inr self2"
      and 3: "update_info self2 data = Inr self3"
      and 4: "update_state self3 data = (self, data', None)"
      by blast
    from update_effects_Inr [OF 1] update_palettes_Inr [OF 2] update_info_Inr [OF 3]
      update_state_result [OF 4]
    show "(\<not> truthy (dict_get data ''info'' PNone) \<longrightarrow> Device_info self = Inl AttributeError) \<and>
      (\<not> truthy (dict_get data ''state'' PNone) \<longrightarrow> Device_state self = Inl AttributeError) \<and>
      (\<not> truthy (dict_get data ''effects'' PNone) \<longrightarrow> effects self = []) \<and>
      (\<not> truthy (dict_get data ''palettes'' PNone) \<longrightarrow> palettes self = [])"
      by (simp add: Device_info_def Device_state_def Device_class_def split: if_splits)
  qed
next
  show "\<forall>e p i s.
      map_of data ''effects'' = Some e \<and> map_of data ''palettes'' = Some p \<and>
      map_of data ''info'' = Some i \<and> map_of data ''state'' = Some s \<and>
      \<not> truthy i \<and> \<not> truthy s \<and>
      (\<not> truthy e \<or> (\<exists>ns. e = PList (map PStr ns))) \<and>
      (\<not> truthy p \<or> (\<exists>ns. p = PList (map PStr ns))) \<longrightarrow>
      (\<exists>self. Device_init data = (data, Inr self) \<and>
         Device_info self = Inl AttributeError \<and> Device_state self = Inl AttributeError)"
  proof (intro allI impI, elim conjE)
    fix e p i s
    assume keys: "map_of data ''effects'' = Some e" "map_of data ''palettes'' = Some p"
      "map_of data ''info'' = Some i" "map_of data ''state'' = Some s"
      and falsy: "\<not> truthy i" "\<not> truthy s"
      and e: "\<not> truthy e \<or> (\<exists>ns. e = PList (map PStr ns))"
      and p: "\<not> truthy p \<or> (\<exists>ns. p = PList (map PStr ns))"
    from keys have guard:
      "any_missing data [''effects'', ''palettes'', ''info'', ''state''] = Inr False"
      by (simp add: dict_contains_def)
    from keys have get: "dict_get data ''effects'' PNone = e" "dict_get data ''palettes'' PNone = p"
      "dict_get data ''info'' PNone = i" "dict_get data ''state'' PNone = s"
      by (simp_all add: dict_get_def)
    from update_effects_returns [OF get(1) e] obtain self1 where
      1: "update_effects Device_class data = Inr self1" by blast
    from update_palettes_returns [OF get(2) p] obtain self2 where
      2: "update_palettes self1 data = Inr self2" by blast
    from get(3) falsy(1) have 3: "update_info self2 data = Inr self2"
      by (simp add: update_info_def)
    from get(4) falsy(2) have 4: "update_state self2 data = (self2, data, None)"
      by (simp add: update_state_def)
    from 1 2 3 4 have "Device_update_from_dict Device_class data = (self2, data, None)"
      by (simp add: Device_update_from_dict_def)
    with guard have "Device_init data = (data, Inr self2)"
      by (simp add: Device_init_def)
    moreover from update_effects_Inr [OF 1] update_palettes_Inr [OF 2]
    have "info self2 = None" "state self2 = None"
      by (simp_all add: Device_class_def)
    ultimately show "\<exists>self. Device_init data = (data, Inr self) \<and>
         Device_info self = Inl AttributeError \<and> Device_state self = Inl AttributeError"
      by (simp add: Device_info_def Device_state_def)
  qed
qed

text \<open>
  The theorem at \<^verbatim>\<open>{"effects": [], "palettes": [], "info": {}, "state": {}}\<close>, at
  \<^verbatim>\<open>{"effects": ["Solid"], "palettes": null, "info": null, "state": {}}\<close> and at
  \<^verbatim>\<open>{"effects": [], "palettes": [], "info": null, "state": {"on": true}}\<close>, where only
  \<^verbatim>\<open>info\<close> stays unassigned.
\<close>

theorem Device_init_falsy_values_witness:
  "Device_init [(''effects'', PList []), (''palettes'', PList []), (''info'', PDict []),
      (''state'', PDict [])]
     = ([(''effects'', PList []), (''palettes'', PList []), (''info'', PDict []),
         (''state'', PDict [])],
        Inr \<lparr> effects = [], info = None, palettes = [], state = None \<rparr>) \<and>
   Device_info \<lparr> effects = [], info = None, palettes = [], state = None \<rparr> = Inl AttributeError \<and>
   Device_state \<lparr> effects = [], info = None, palettes = [], state = None \<rparr> = Inl AttributeError \<and>
   (\<exists>self. Device_init [(''effects'', PList [PStr ''Solid'']), (''palettes'', PNone),
                (''info'', PNone), (''state'', PDict [])]
            = ([(''effects'', PList [PStr ''Solid'']), (''palettes'', PNone),
                (''info'', PNone), (''state'', PDict [])], Inr self) \<and>
          Device_info self = Inl AttributeError \<and> Device_state self = Inl AttributeError) \<and>
   (\<exists>self s. Device_init [(''effects'', PList []), (''palettes'', PList []), (''info'', PNone),
                (''state'', PDict [(''on'', PBool True)])]
            = ([(''effects'', PList []), (''palettes'', PList []), (''info'', PNone),
                (''state'', PDict [(''on'', PBool True)])], Inr self) \<and>
          Device_info self = Inl AttributeError \<and> Device_state self = Inr s \<and>
          effects self = [] \<and> palettes self = [])"
proof -
  let ?P1 = "[(''effects'', PList []), (''palettes'', PList []), (''info'', PDict []),
      (''state'', PDict [])]"
  let ?P2 = "[(''effects'', PList [PStr ''Solid'']), (''palettes'', PNone),
                (''info'', PNone), (''state'', PDict [])]"
  let ?self = "\<lparr> effects = [], info = None, palettes = [], state = None \<rparr>"
  have init: "Device_init ?P1 = (?P1, Inr ?self)"
    by (simp add: Device_init_def dict_contains_def Device_update_from_dict_def update_effects_def
        update_palettes_def update_info_def update_state_def dict_get_def Device_class_def Let_def)
  from Device_init_falsy_values [of ?P1, THEN conjunct2, rule_format, OF init]
  have "Device_info ?self = Inl AttributeError \<and> Device_state ?self = Inl AttributeError"
    by (simp add: dict_get_def)
  moreover
  have "\<not> truthy (PList [PStr ''Solid'']) \<or> (\<exists>ns. PList [PStr ''Solid''] = PList (map PStr ns))"
    by (intro disjI2 exI [of _ "[''Solid'']"]) simp
  with Device_init_falsy_values [of ?P2, THEN conjunct1, rule_format,
      of "PList [PStr ''Solid'']" PNone PNone "PDict []"]
  have "\<exists>self. Device_init ?P2 = (?P2, Inr self) \<and>
          Device_info self = Inl AttributeError \<and> Device_state self = Inl AttributeError"
    by simp
  moreover
  let ?P3 = "[(''effects'', PList []), (''palettes'', PList []), (''info'', PNone),
                (''state'', PDict [(''on'', PBool True)])]"
  obtain self3 s3 where init3: "Device_init ?P3 = (?P3, Inr self3)"
    and state3: "Device_state self3 = Inr s3"
    by (simp add: Device_init_def dict_contains_def Device_update_from_dict_def update_effects_def
        update_palettes_def update_info_def update_state_def dict_get_def Device_class_def Let_def
        State_from_dict_def Nightlight_from_dict_def Sync_from_dict_def Device_state_def)
  from Device_init_falsy_values [of ?P3, THEN conjunct2, rule_format, OF init3]
  have "Device_info self3 = Inl AttributeError \<and> effects self3 = [] \<and> palettes self3 = []"
    by (simp add: dict_get_def)
  with init3 state3 have "\<exists>self s. Device_init ?P3 = (?P3, Inr self) \<and>
          Device_info self = Inl AttributeError \<and> Device_state self = Inr s \<and>
          effects self = [] \<and> palettes self = []"
    by blast
  ultimately show ?thesis
    using init by blast
qed

section \<open>A device's full status\<close>

text \<open>
  The payload with the effects \<^verbatim>\<open>["Solid", "Blink"]\<close>, the palettes \<^verbatim>\<open>["Default"]\<close>, the
  info \<^verbatim>\<open>{"ver": "0.13.0"}\<close> and the state
  \<^verbatim>\<open>{"on": true, "bri": 128, "seg": [{"fx": 0, "pal": 0, "start": 0, "stop": 10, "col": [[255, 0, 0]]}]}\<close>
  constructs a Device whose effects are Blink (1) and Solid (0), in this order, and whose
  segment has the effect Solid, the primary color \<^verbatim>\<open>(255, 0, 0)\<close>, the integer \<^verbatim>\<open>0\<close> as
  secondary and tertiary color, and the length 10.
\<close>

lemma Device_init_full_status:
  "map_sum id
     (\<lambda>self. (effects self,
        map_option (\<lambda>s. map (\<lambda>seg. (effect seg, color_primary seg, color_secondary seg,
                                    color_tertiary seg, length_seg seg)) (segments s))
          (state self)))
     (snd (Device_init
        [(''effects'', PList [PStr ''Solid'', PStr ''Blink'']),
         (''palettes'', PList [PStr ''Default'']),
         (''info'', PDict [(''ver'', PStr ''0.13.0'')]),
         (''state'', PDict [(''on'', PBool True), (''bri'', PInt 128),
            (''seg'', PList [PDict [(''fx'', PInt 0), (''pal'', PInt 0), (''start'', PInt 0),
               (''stop'', PInt 10), (''col'', PList [PList [PInt 255, PInt 0, PInt 0]])]])])]))
   = Inr ([\<lparr> effect_id = 1, name_fx = PStr ''Blink'' \<rparr>, \<lparr> effect_id = 0, name_fx = PStr ''Solid'' \<rparr>],
          Some [(\<lparr> effect_id = 0, name_fx = PStr ''Solid'' \<rparr>,
                 PTuple [PInt 255, PInt 0, PInt 0], PInt 0, PInt 0, PInt 10)])"
  by code_simp

end
